theory Spec2Isabelle
  imports Main
begin

section \<open>Text helpers\<close>

text \<open>
  The monitor builds step names, messages and the report with f-strings. A Python
  \<open>str\<close> is modelled as a \<open>string\<close> holding the UTF-8 bytes of the text, which is what
  the monitor writes to its files (every file is opened with \<open>encoding="utf-8"\<close>).
  \<open>str_int\<close> is \<open>str(n)\<close> of a Python integer.
\<close>

definition digit_char :: "nat \<Rightarrow> char" where
  "digit_char d = ''0123456789'' ! d"

fun str_nat :: "nat \<Rightarrow> string" where
  "str_nat n = (if n < 10 then [digit_char n] else str_nat (n div 10) @ [digit_char (n mod 10)])"

definition str_int :: "int \<Rightarrow> string" where
  "str_int i = (if i < 0 then CHR ''-'' # str_nat (nat (- i)) else str_nat (nat i))"

text \<open>\<open>needle in haystack\<close> on strings: the needle occurs as a contiguous run.\<close>

fun startswith :: "string \<Rightarrow> string \<Rightarrow> bool" where
  "startswith s [] = True"
| "startswith [] (p # ps) = False"
| "startswith (c # cs) (p # ps) = (c = p \<and> startswith cs ps)"

fun py_in :: "string \<Rightarrow> string \<Rightarrow> bool" where
  "py_in needle [] = (needle = [])"
| "py_in needle (c # cs) = (startswith (c # cs) needle \<or> py_in needle cs)"

section \<open>ErrorTracker\<close>

text \<open>
  The records \<open>error_data\<close> and \<open>warning_data\<close> are the dictionaries built by
  \<open>add_error\<close> and \<open>add_warning\<close>. A timestamp is the string that
  \<open>datetime.now().isoformat()\<close> returned; the tracker methods take it as an argument.
  Severities are the strings the callers pass.
\<close>

type_synonym timestamp = string

record error_data =
  e_category :: string
  e_error :: string
  e_severity :: string
  e_suggestion :: string
  e_timestamp :: timestamp
  e_retry_count :: nat

record warning_data =
  w_category :: string
  w_warning :: string
  w_suggestion :: string
  w_timestamp :: timestamp

record ErrorTracker =
  errors :: "error_data list"
  warnings :: "warning_data list"
  retries :: "string \<rightharpoonup> nat"
  severity_levels :: "(string \<times> string) list"

definition ErrorTracker_init :: ErrorTracker where
  "ErrorTracker_init =
     \<lparr> errors = [], warnings = [], retries = Map.empty,
       severity_levels =
         [(''LOW'', ''Minor issue - doesn't affect functionality''),
          (''MEDIUM'', ''Some features may be limited''),
          (''HIGH'', ''Critical functionality missing''),
          (''CRITICAL'', ''Installation failed'')] \<rparr>"

definition get_retry_count :: "ErrorTracker \<Rightarrow> string \<Rightarrow> nat" where
  "get_retry_count self category = (case retries self category of None \<Rightarrow> 0 | Some n \<Rightarrow> n)"

definition increment_retry :: "ErrorTracker \<Rightarrow> string \<Rightarrow> ErrorTracker" where
  "increment_retry self category =
     self\<lparr>retries := (retries self)(category \<mapsto> get_retry_count self category + 1)\<rparr>"

definition add_error ::
  "ErrorTracker \<Rightarrow> string \<Rightarrow> string \<Rightarrow> string \<Rightarrow> string \<Rightarrow> timestamp \<Rightarrow> error_data \<times> ErrorTracker" where
  "add_error self category error severity suggestion ts =
     (let error_data = \<lparr> e_category = category, e_error = error, e_severity = severity,
                          e_suggestion = suggestion, e_timestamp = ts,
                          e_retry_count = get_retry_count self category \<rparr>
      in (error_data, self\<lparr>errors := errors self @ [error_data]\<rparr>))"

definition add_warning ::
  "ErrorTracker \<Rightarrow> string \<Rightarrow> string \<Rightarrow> string \<Rightarrow> timestamp \<Rightarrow> warning_data \<times> ErrorTracker" where
  "add_warning self category warning suggestion ts =
     (let warning_data = \<lparr> w_category = category, w_warning = warning,
                            w_suggestion = suggestion, w_timestamp = ts \<rparr>
      in (warning_data, self\<lparr>warnings := warnings self @ [warning_data]\<rparr>))"

section \<open>The monitor's global state and its environment\<close>

text \<open>
  \<open>step_data\<close> is the dictionary \<open>add_step\<close> appends to \<open>audit["steps"]\<close>;
  \<open>audit_data\<close> is the module-level \<open>audit\<close> dictionary (its \<open>attempts\<close> and
  \<open>system_info\<close> entries are never read or written and are left out).
\<close>

record step_data =
  s_name :: string
  s_status :: string
  s_details :: string
  s_attempt :: int
  s_time :: timestamp

record audit_data =
  start_time :: timestamp
  steps :: "step_data list"
  end_time :: "timestamp option"
  success :: bool

text \<open>
  What the monitor does to the outside world is kept as a trace of events, in the order
  of the calls: \<open>time.sleep\<close>, \<open>subprocess.Popen\<close>, \<open>proc.poll\<close>, the file-system
  calls with the path they are made on, and the calls of the diagnostics and of
  \<open>main\<close>.
\<close>

datatype event =
    Sleep nat
  | Popen
  | Poll
  | PathExists string
  | PathStat string
  | PathRglob string
  | PathReadText string
  | WriteFile string
  | Rmtree string
  | Mkdir string
  | DiskUsage
  | HttpGet
  | Input

record log_line =
  l_time :: timestamp
  l_level :: string
  l_message :: string

text \<open>
  The state is the two module-level objects \<open>error_tracker\<close> and \<open>audit\<close>, the lines
  handed to \<open>safe_log\<close>, the event trace, the number of clock readings taken so far and
  the number of \<open>poll\<close> calls made on the current process handle.
\<close>

record state =
  error_tracker :: ErrorTracker
  audit :: audit_data
  log_lines :: "log_line list"
  events :: "event list"
  clock_reads :: nat
  polls :: nat

text \<open>
  A launched installer either exits, with a return code, so that the calls of
  \<open>poll()\<close> on it return the code from some call on (\<open>Exits t rc\<close>: from call number
  \<open>t\<close>, counted from 0), or it never does (\<open>Hangs\<close>). \<open>subprocess.Popen\<close> itself may
  raise; \<open>LaunchError\<close> carries \<open>str(e)\<close>.
\<close>

datatype proc = Exits nat int | Hangs

fun proc_poll :: "proc \<Rightarrow> nat \<Rightarrow> int option" where
  "proc_poll (Exits t rc) k = (if t \<le> k then Some rc else None)"
| "proc_poll Hangs k = None"

datatype launch = LaunchError string | Launched proc

text \<open>
  The installer file as the validator finds it: its size, the value of
  \<open>BAT_FILE.suffix.lower()\<close>, and what \<open>read_text(encoding='utf-8')\<close> gives: the
  decoded text, a \<open>UnicodeDecodeError\<close>, or another exception with its message.
\<close>

datatype read_result = Text string | UnicodeDecodeError | OtherError string

record file_obs =
  st_size :: nat
  suffix_lower :: string
  read_text :: read_result

text \<open>
  The installation directory as the verifier finds it: the sizes of the regular files
  that \<open>rglob('*')\<close> yields, and for a relative path whether it exists and its size.
\<close>

record tree_obs =
  rglob_file_sizes :: "nat list"
  lookup :: "string \<Rightarrow> nat option"

text \<open>What \<open>psutil.disk_usage\<close> returns, as far as the monitor looks at it.\<close>

record disk_obs =
  percent_gt_90 :: bool
  percent_str :: string

text \<open>
  Everything the monitor reads from outside: the clock (\<open>wall k\<close> is the \<open>k\<close>-th
  reading of \<open>datetime.now()\<close>, in ISO format), the installer process of each attempt,
  the paths that depend on the host, the files, and the answer of the user
  (\<open>choice\<close> is \<open>input(...).strip().lower()\<close>). \<open>duration_str s e\<close> is
  \<open>str(datetime.fromisoformat(e) - datetime.fromisoformat(s))\<close>.
\<close>

record env =
  wall :: "nat \<Rightarrow> timestamp"
  launch :: "int \<Rightarrow> launch"
  cwd :: string
  desktop :: string
  path_sep :: string
  duration_str :: "timestamp \<Rightarrow> timestamp \<Rightarrow> string"
  bat_file :: "file_obs option"
  install_tree :: "tree_obs option"
  report_write_error :: "string option"
  disk_usage :: "string + disk_obs"
  internet_access :: bool
  diagnostics_write_error :: "string option"
  install_dir_exists_before :: bool
  mkdir_error :: "string option"
  choice :: string

definition APP_NAME :: string where
  "APP_NAME = ''M3U Matrix CDS v5.0''"

definition joinpath :: "env \<Rightarrow> string \<Rightarrow> string \<Rightarrow> string" where
  "joinpath E a b = a @ path_sep E @ b"

definition INSTALL_DIR :: "env \<Rightarrow> string" where
  "INSTALL_DIR E = joinpath E (desktop E) APP_NAME"

definition BAT_FILE :: string where
  "BAT_FILE = ''installer m3u builder.bat''"

definition LOG_FILE :: "env \<Rightarrow> string" where
  "LOG_FILE E = joinpath E (INSTALL_DIR E) ''install_audit.log''"

definition REPORT_FILE :: "env \<Rightarrow> string" where
  "REPORT_FILE E = joinpath E (INSTALL_DIR E) ''AUDIT_REPORT.txt''"

definition DIAGNOSTICS_FILE :: "env \<Rightarrow> string" where
  "DIAGNOSTICS_FILE E = joinpath E (INSTALL_DIR E) ''SYSTEM_DIAGNOSTICS.json''"

definition EXPECTED_FILES :: "string list" where
  "EXPECTED_FILES =
     [''main.py'', ''gemini_api.py'', ''imdb_scraper.py'', ''requirements.txt'',
      ''build_installer.py'', ''weebly_player_full.html'', ''player/player-logic.js'',
      ''themes/dark.json'', ''themes/neon.json'', ''electron_app/main.js'',
      ''electron_app/preload.js'', ''electron_app/package.json'']"

definition now :: "env \<Rightarrow> state \<Rightarrow> timestamp \<times> state" where
  "now E st = (wall E (clock_reads st), st\<lparr>clock_reads := clock_reads st + 1\<rparr>)"

definition record_event :: "event \<Rightarrow> state \<Rightarrow> state" where
  "record_event ev st = st\<lparr>events := events st @ [ev]\<rparr>"

definition sleep :: "nat \<Rightarrow> state \<Rightarrow> state" where
  "sleep n st = record_event (Sleep n) st"

text \<open>
  \<open>safe_log\<close> reads the clock, writes the line to the log file and prints it; a failure
  of the file is caught inside. It never raises and touches neither the tracker nor the
  audit. The model keeps the line.
\<close>

definition safe_log :: "env \<Rightarrow> string \<Rightarrow> string \<Rightarrow> state \<Rightarrow> state" where
  "safe_log E message level st =
     (let (t, st1) = now E st
      in st1\<lparr>log_lines := log_lines st1 @ [\<lparr>l_time = t, l_level = level, l_message = message\<rparr>]\<rparr>)"

definition em_dash :: string where
  "em_dash = [CHR 0xE2, CHR 0x80, CHR 0x94]"

definition add_step :: "env \<Rightarrow> string \<Rightarrow> string \<Rightarrow> string \<Rightarrow> int \<Rightarrow> state \<Rightarrow> state" where
  "add_step E name status details attempt st =
     (let (t, st1) = now E st;
          step_data = \<lparr>s_name = name, s_status = status, s_details = details,
                       s_attempt = attempt, s_time = t\<rparr>;
          st2 = st1\<lparr>audit := (audit st1)\<lparr>steps := steps (audit st1) @ [step_data]\<rparr>\<rparr>
      in safe_log E (status @ '': '' @ name @ '' (Attempt '' @ str_int attempt @ '') ''
                       @ em_dash @ '' '' @ details) ''INFO'' st2)"

text \<open>The calls \<open>error_tracker.add_error(...)\<close> and so on, on the global tracker.\<close>

definition tracker_add_error ::
  "env \<Rightarrow> string \<Rightarrow> string \<Rightarrow> string \<Rightarrow> string \<Rightarrow> state \<Rightarrow> error_data \<times> state" where
  "tracker_add_error E category error severity suggestion st =
     (let (t, st1) = now E st;
          (error_data, tr) = add_error (error_tracker st1) category error severity suggestion t
      in (error_data, st1\<lparr>error_tracker := tr\<rparr>))"

definition tracker_add_warning ::
  "env \<Rightarrow> string \<Rightarrow> string \<Rightarrow> string \<Rightarrow> state \<Rightarrow> warning_data \<times> state" where
  "tracker_add_warning E category warning suggestion st =
     (let (t, st1) = now E st;
          (warning_data, tr) = add_warning (error_tracker st1) category warning suggestion t
      in (warning_data, st1\<lparr>error_tracker := tr\<rparr>))"

definition tracker_increment_retry :: "string \<Rightarrow> state \<Rightarrow> state" where
  "tracker_increment_retry category st =
     st\<lparr>error_tracker := increment_retry (error_tracker st) category\<rparr>"

section \<open>run_installer_with_retries\<close>

definition popen :: "state \<Rightarrow> state" where
  "popen st = (record_event Popen st)\<lparr>polls := 0\<rparr>"

definition poll :: "proc \<Rightarrow> state \<Rightarrow> int option \<times> state" where
  "poll p st = (proc_poll p (polls st), (record_event Poll st)\<lparr>polls := polls st + 1\<rparr>)"

definition max_wait :: nat where
  "max_wait = 300"

text \<open>
  The monitoring loop \<open>for i in range(max_wait)\<close>: sleep one second, poll, leave the
  loop when the process has exited, log a line every 30th round.
\<close>

fun monitor :: "env \<Rightarrow> proc \<Rightarrow> int \<Rightarrow> nat list \<Rightarrow> state \<Rightarrow> state" where
  "monitor E p attempt [] st = st"
| "monitor E p attempt (i # rest) st =
     (let st1 = sleep 1 st;
          (r, st2) = poll p st1
      in if r \<noteq> None then st2
         else monitor E p attempt rest
                (if i mod 30 = 0
                 then safe_log E (''Installer running... ('' @ str_nat i @ ''s, attempt ''
                                    @ str_int attempt @ '')'') ''INFO'' st2
                 else st2))"

text \<open>
  The body of the loop over the attempts. It gives \<open>Some b\<close> when the function returns
  \<open>b\<close> from inside the loop and \<open>None\<close> when the loop goes on to the next attempt.
\<close>

definition attempt_body :: "env \<Rightarrow> int \<Rightarrow> int \<Rightarrow> state \<Rightarrow> bool option \<times> state" where
  "attempt_body E max_attempts attempt st =
     (let name = ''Run installer - Attempt '' @ str_int attempt;
          st1 = tracker_increment_retry ''Installer Execution'' st;
          st2 = add_step E name ''RUNNING'' [] attempt st1;
          st3 = safe_log E (''Starting installer attempt '' @ str_int attempt @ ''/''
                              @ str_int max_attempts) ''INFO'' st2;
          st4 = popen st3
      in case launch E attempt of
           LaunchError e \<Rightarrow>
             (let (error_data, st5) =
                    tracker_add_error E ''Installer Execution''
                      (''Attempt '' @ str_int attempt @ '' crashed: '' @ e)
                      (if attempt = max_attempts then ''HIGH'' else ''MEDIUM'') [] st4
              in if attempt < max_attempts then (None, sleep 5 st5) else (Some False, st5))
         | Launched p \<Rightarrow>
             (let st5 = monitor E p attempt [0..<max_wait] st4;
                  (return_code, st6) = poll p st5
              in if return_code = Some 0
                 then (Some True,
                       safe_log E (''Installer completed successfully on attempt ''
                                     @ str_int attempt) ''INFO''
                         (add_step E name ''SUCCESS''
                            (''Completed on attempt '' @ str_int attempt) 1 st6))
                 else
                   (let status_msg = (case return_code of
                                        Some rc \<Rightarrow> ''Exit code: '' @ str_int rc
                                      | None \<Rightarrow> ''Timed out'');
                        st7 = add_step E name ''FAILED'' status_msg 1 st6;
                        (error_data, st8) =
                          tracker_add_error E ''Installer Execution''
                            (''Attempt '' @ str_int attempt @ '' failed: '' @ status_msg)
                            (if attempt = max_attempts then ''HIGH'' else ''MEDIUM'')
                            (if attempt < max_attempts
                             then ''Retrying... ('' @ str_int attempt @ ''/''
                                    @ str_int max_attempts @ '')''
                             else ''All retries exhausted'') st7
                    in if attempt < max_attempts
                       then (None,
                             sleep 5
                               (safe_log E (''Waiting 5 seconds before retry ''
                                              @ str_int (attempt + 1) @ ''...'') ''INFO'' st8))
                       else (Some False,
                             safe_log E ''All installation attempts failed'' ''INFO'' st8))))"

fun retry_loop :: "env \<Rightarrow> int \<Rightarrow> int list \<Rightarrow> state \<Rightarrow> bool \<times> state" where
  "retry_loop E max_attempts [] st = (False, st)"
| "retry_loop E max_attempts (attempt # rest) st =
     (case attempt_body E max_attempts attempt st of
        (Some b, st') \<Rightarrow> (b, st')
      | (None, st') \<Rightarrow> retry_loop E max_attempts rest st')"

definition run_installer_with_retries :: "env \<Rightarrow> int \<Rightarrow> state \<Rightarrow> bool \<times> state" where
  "run_installer_with_retries E max_attempts st = retry_loop E max_attempts [1..max_attempts] st"

section \<open>Views used to state the properties\<close>

text \<open>
  A step and an error record without their time stamps, the number of installer
  launches in the event trace, and the strings the retry loop builds for an attempt.
\<close>

definition step_view :: "step_data \<Rightarrow> string \<times> string \<times> string \<times> int" where
  "step_view s = (s_name s, s_status s, s_details s, s_attempt s)"

definition error_view :: "error_data \<Rightarrow> string \<times> string \<times> string \<times> string \<times> nat" where
  "error_view e = (e_category e, e_error e, e_severity e, e_suggestion e, e_retry_count e)"

definition launches :: "state \<Rightarrow> nat" where
  "launches st = length (filter (\<lambda>ev. ev = Popen) (events st))"

definition attempt_name :: "int \<Rightarrow> string" where
  "attempt_name a = ''Run installer - Attempt '' @ str_int a"

definition status_msg_of :: "int option \<Rightarrow> string" where
  "status_msg_of return_code =
     (case return_code of Some rc \<Rightarrow> ''Exit code: '' @ str_int rc | None \<Rightarrow> ''Timed out'')"

definition severity_of :: "int \<Rightarrow> int \<Rightarrow> string" where
  "severity_of max_attempts a = (if a = max_attempts then ''HIGH'' else ''MEDIUM'')"

text \<open>
  The state the module starts in, and an environment with a given installer behaviour,
  used for the concrete instances.
\<close>

definition initial_state :: "env \<Rightarrow> state" where
  "initial_state E =
     \<lparr> error_tracker = ErrorTracker_init,
       audit = \<lparr> start_time = wall E 0, steps = [], end_time = None, success = True \<rparr>,
       log_lines = [], events = [], clock_reads = 1, polls = 0 \<rparr>"

definition example_env :: "(int \<Rightarrow> launch) \<Rightarrow> env" where
  "example_env f =
     \<lparr> wall = (\<lambda>k. ''2025-01-01T00:00:'' @ str_nat (10 + k)),
       launch = f,
       cwd = ''C:/work'',
       desktop = ''C:/Users/u/Desktop'',
       path_sep = ''/'',
       duration_str = (\<lambda>s e. ''0:00:01''),
       bat_file = None,
       install_tree = None,
       report_write_error = None,
       disk_usage = Inl ''no disk'',
       internet_access = True,
       diagnostics_write_error = None,
       install_dir_exists_before = False,
       mkdir_error = None,
       choice = ''y'' \<rparr>"

definition second_succeeds :: "int \<Rightarrow> launch" where
  "second_succeeds a = (if a = 1 then LaunchError ''denied''
                        else if a = 2 then Launched (Exits 5 0) else Launched Hangs)"

section \<open>verify_installer_comprehensive\<close>

text \<open>
  The local dictionary \<open>checks\<close> is never returned by the source; the model returns it
  next to the result so that the facts it records can be stated.
\<close>

record checks =
  c_exists :: bool
  c_size_bytes :: nat
  c_is_batch_file :: bool
  c_content_check :: bool
  c_encoding_valid :: bool

definition key_markers :: "string list" where
  "key_markers = [''@echo off'', ''M3U Matrix'', ''pip install'', ''python'']"

definition verify_installer_comprehensive :: "env \<Rightarrow> state \<Rightarrow> bool \<times> checks \<times> state" where
  "verify_installer_comprehensive E st =
     (let st1 = add_step E ''Comprehensive installer verification'' ''RUNNING'' [] 1 st;
          checks = \<lparr> c_exists = False, c_size_bytes = 0, c_is_batch_file = False,
                     c_content_check = False, c_encoding_valid = False \<rparr>;
          st2 = record_event (PathExists BAT_FILE) st1
      in case bat_file E of
           None \<Rightarrow>
             (let (error_data, st3) =
                    tracker_add_error E ''Installer Verification''
                      (''File not found: '' @ BAT_FILE) ''CRITICAL''
                      (''Ensure 'installer m3u builder.bat' is in: '' @ cwd E) st2
              in (False, checks, st3))
         | Some f \<Rightarrow>
             (let checks1 = checks\<lparr>c_exists := True\<rparr>;
                  st3 = record_event (PathStat BAT_FILE) st2;
                  file_size = st_size f;
                  checks2 = checks1\<lparr>c_size_bytes := file_size\<rparr>;
                  st4 = (if file_size < 100
                         then snd (tracker_add_warning E ''Installer Size''
                                     (''Installer file very small: '' @ str_nat file_size @ '' bytes'')
                                     ''File may be corrupted or incomplete'' st3)
                         else st3);
                  checks3 = checks2\<lparr>c_is_batch_file := (suffix_lower f = ''.bat'')\<rparr>;
                  st5 = record_event (PathReadText BAT_FILE) st4
              in case read_text f of
                   Text content \<Rightarrow>
                     (let checks4 = checks3\<lparr>c_content_check := True, c_encoding_valid := True\<rparr>;
                          markers_found = filter (\<lambda>marker. py_in marker content) key_markers;
                          st6 = (if length markers_found < 2
                                 then snd (tracker_add_warning E ''Installer Content''
                                             ''Missing expected batch file markers''
                                             ''File may not be a valid installer'' st5)
                                 else st5);
                          st7 = add_step E ''Comprehensive installer verification'' ''SUCCESS''
                                  (''Size: '' @ str_nat file_size @ '' bytes, Markers: ''
                                     @ str_nat (length markers_found) @ ''/4'') 1 st6
                      in (True, checks4, st7))
                 | UnicodeDecodeError \<Rightarrow>
                     (let checks4 = checks3\<lparr>c_encoding_valid := False\<rparr>;
                          (error_data, st6) =
                            tracker_add_error E ''Installer Encoding''
                              ''Batch file has invalid encoding'' ''HIGH''
                              ''Re-download the installer file'' st5
                      in (False, checks4, st6))
                 | OtherError e \<Rightarrow>
                     (let (error_data, st6) =
                            tracker_add_error E ''Installer Verification'' e ''HIGH'' [] st5
                      in (False, checks3, st6))))"

section \<open>verify_installation_comprehensive\<close>

record found_entry =
  f_path :: string
  f_size_bytes :: nat
  f_is_empty :: bool

text \<open>
  The dictionary \<open>verification\<close> (its entry \<open>directory_structure\<close> stays the empty
  dictionary and is left out).
\<close>

record verification =
  files_found :: "found_entry list"
  files_missing :: "string list"
  files_partial :: "string list"
  total_expected :: nat
  install_size_bytes :: nat

text \<open>The loop \<open>for file_path in EXPECTED_FILES\<close>, over any list of expected files.\<close>

fun check_expected_files ::
  "env \<Rightarrow> tree_obs \<Rightarrow> string list \<Rightarrow> verification \<Rightarrow> state \<Rightarrow> verification \<times> state" where
  "check_expected_files E T [] v st = (v, st)"
| "check_expected_files E T (file_path # rest) v st =
     (let full_path = joinpath E (INSTALL_DIR E) file_path;
          st1 = record_event (PathExists full_path) st
      in case lookup T file_path of
           Some file_size \<Rightarrow>
             (let st2 = record_event (PathStat full_path) st1;
                  v1 = v\<lparr>files_found := files_found v
                            @ [\<lparr>f_path = file_path, f_size_bytes = file_size,
                                f_is_empty = (file_size = 0)\<rparr>]\<rparr>
              in if file_size = 0
                 then check_expected_files E T rest
                        (v1\<lparr>files_partial := files_partial v1 @ [file_path]\<rparr>)
                        (snd (tracker_add_warning E ''File Content''
                                (''Empty file: '' @ file_path)
                                ''File was created but contains no data'' st2))
                 else check_expected_files E T rest v1 st2)
         | None \<Rightarrow>
             check_expected_files E T rest
               (v\<lparr>files_missing := files_missing v @ [file_path]\<rparr>) st1)"

text \<open>
  The verifier with the list of expected files as an argument; the source's function is
  its instance at the constant \<open>EXPECTED_FILES\<close>. The file-system calls are taken
  not to raise, so the handler that ends the source function is not entered.
\<close>

definition verify_installation_of :: "string list \<Rightarrow> env \<Rightarrow> state \<Rightarrow> verification \<times> state" where
  "verify_installation_of expected E st =
     (let st1 = add_step E ''Comprehensive installation verification'' ''RUNNING'' [] 1 st;
          verification = \<lparr> files_found = [], files_missing = [], files_partial = [],
                           total_expected = length expected, install_size_bytes = 0 \<rparr>;
          st2 = record_event (PathExists (INSTALL_DIR E)) st1
      in case install_tree E of
           None \<Rightarrow>
             (let (error_data, st3) =
                    tracker_add_error E ''Installation Directory''
                      (''Installation directory not created: '' @ INSTALL_DIR E) ''CRITICAL''
                      ''The installer may have failed at folder creation step'' st2
              in (verification, st3))
         | Some T \<Rightarrow>
             (let st3 = record_event (PathRglob (INSTALL_DIR E)) st2;
                  total_size = sum_list (rglob_file_sizes T);
                  verification1 = verification\<lparr>install_size_bytes := total_size\<rparr>;
                  (verification2, st4) = check_expected_files E T expected verification1 st3;
                  found_count = length (files_found verification2);
                  missing_count = length (files_missing verification2);
                  empty_count = length (files_partial verification2);
                  st5 = safe_log E (''Installation Analysis: '' @ str_nat found_count @ '' found, ''
                                      @ str_nat missing_count @ '' missing, ''
                                      @ str_nat empty_count @ '' empty'') ''INFO'' st4;
                  st6 = (if missing_count > 0
                         then snd (tracker_add_error E ''File Verification''
                                     (str_nat missing_count @ '' files missing, ''
                                        @ str_nat empty_count @ '' files empty'')
                                     (if missing_count > 5 then ''HIGH'' else ''MEDIUM'')
                                     ''Check network connection and GitHub availability'' st5)
                         else st5);
                  st7 = (if found_count = 0
                         then snd (tracker_add_error E ''Installation''
                                     ''No expected files were installed'' ''CRITICAL''
                                     ''The installer may be downloading to wrong location or failing completely''
                                     st6)
                         else st6);
                  st8 = add_step E ''Comprehensive installation verification''
                          (if missing_count = 0 then ''SUCCESS'' else ''WARNING'')
                          (''Files: '' @ str_nat found_count @ ''/'' @ str_nat (length expected)
                             @ '' found, Size: '' @ str_nat total_size @ '' bytes'') 1 st7
              in (verification2, st8)))"

definition verify_installation_comprehensive :: "env \<Rightarrow> state \<Rightarrow> verification \<times> state" where
  "verify_installation_comprehensive E st = verify_installation_of EXPECTED_FILES E st"

definition warning_view :: "warning_data \<Rightarrow> string \<times> string \<times> string" where
  "warning_view w = (w_category w, w_warning w, w_suggestion w)"

text \<open>
  The entries of \<open>files_found\<close> for a list of expected files in a tree, and the
  warning recorded for an empty file.
\<close>

definition found_entries :: "tree_obs \<Rightarrow> string list \<Rightarrow> found_entry list" where
  "found_entries T ps =
     concat (map (\<lambda>p. case lookup T p of
                          Some n \<Rightarrow> [\<lparr>f_path = p, f_size_bytes = n, f_is_empty = (n = 0)\<rparr>]
                        | None \<Rightarrow> []) ps)"

definition empty_file_warning :: "string \<Rightarrow> string \<times> string \<times> string" where
  "empty_file_warning p =
     (''File Content'', ''Empty file: '' @ p, ''File was created but contains no data'')"

section \<open>Concrete inputs\<close>

text \<open>An installer file of 0 bytes with another extension, whose text decodes.\<close>

definition tiny_text_file :: file_obs where
  "tiny_text_file = \<lparr> st_size = 0, suffix_lower = ''.txt'', read_text = Text [] \<rparr>"

definition env_tiny_installer :: env where
  "env_tiny_installer = (example_env (\<lambda>a. Launched Hangs))\<lparr>bat_file := Some tiny_text_file\<rparr>"

text \<open>
  An installation directory holding two of the expected files, one of them empty.
\<close>

definition partial_tree :: tree_obs where
  "partial_tree =
     \<lparr> rglob_file_sizes = [10, 0],
       lookup = (\<lambda>p. if p = ''main.py'' then Some 10
                      else if p = ''requirements.txt'' then Some 0 else None) \<rparr>"

definition env_partial_install :: env where
  "env_partial_install = (example_env (\<lambda>a. Launched Hangs))\<lparr>install_tree := Some partial_tree\<rparr>"

section \<open>generate_comprehensive_report\<close>

text \<open>The characters of the report outside ASCII, as their UTF-8 bytes.\<close>

definition nl :: string where
  "nl = [CHR 0x0A]"

definition box_top :: string where
  "box_top = [CHR 0xE2, CHR 0x95, CHR 0x94]
               @ concat (replicate 60 [CHR 0xE2, CHR 0x95, CHR 0x90])
               @ [CHR 0xE2, CHR 0x95, CHR 0x97]"

definition box_side :: string where
  "box_side = [CHR 0xE2, CHR 0x95, CHR 0x91]"

definition box_bottom :: string where
  "box_bottom = [CHR 0xE2, CHR 0x95, CHR 0x9A]
                  @ concat (replicate 60 [CHR 0xE2, CHR 0x95, CHR 0x90])
                  @ [CHR 0xE2, CHR 0x95, CHR 0x9D]"

definition icon_check :: string where
  "icon_check = [CHR 0xE2, CHR 0x9C, CHR 0x85]"

definition icon_warning :: string where
  "icon_warning = [CHR 0xE2, CHR 0x9A, CHR 0xA0, CHR 0xEF, CHR 0xB8, CHR 0x8F]"

definition icon_cross :: string where
  "icon_cross = [CHR 0xE2, CHR 0x9D, CHR 0x8C]"

definition icon_arrow :: string where
  "icon_arrow = [CHR 0xE2, CHR 0x86, CHR 0x92]"

definition icon_siren :: string where
  "icon_siren = [CHR 0xF0, CHR 0x9F, CHR 0x9A, CHR 0xA8]"

definition icon_bulb :: string where
  "icon_bulb = [CHR 0xF0, CHR 0x9F, CHR 0x92, CHR 0xA1]"

definition bullet :: string where
  "bullet = [CHR 0xE2, CHR 0x80, CHR 0xA2]"

text \<open>
  \<open>d[k] = d.get(k, 0) + 1\<close> on a dictionary, which keeps the order in which the keys
  were first inserted.
\<close>

fun dict_incr :: "(string \<times> nat) list \<Rightarrow> string \<Rightarrow> (string \<times> nat) list" where
  "dict_incr [] k = [(k, 1)]"
| "dict_incr ((k', n) # rest) k =
     (if k' = k then (k', n + 1) # rest else (k', n) # dict_incr rest k)"

definition error_summary ::
  "error_data list \<Rightarrow> (string \<times> nat) list \<times> (string \<times> nat) list" where
  "error_summary es =
     foldl (\<lambda>(by_severity, by_category) error.
              (dict_incr by_severity (e_severity error),
               dict_incr by_category (e_category error))) ([], []) es"

definition render_counts :: "(string \<times> nat) list \<Rightarrow> string" where
  "render_counts d =
     concat (map (\<lambda>(k, count). ''  '' @ k @ '': '' @ str_nat count @ '' error(s)'' @ nl) d)"

definition render_step :: "step_data \<Rightarrow> string" where
  "render_step step =
     (let status_icon = (if s_status step = ''SUCCESS'' then icon_check
                         else if s_status step = ''WARNING'' then icon_warning
                         else icon_cross)
      in ''  '' @ status_icon @ '' ['' @ s_status step @ ''] '' @ s_name step @ nl
         @ (if s_details step \<noteq> []
            then ''      '' @ icon_arrow @ '' '' @ s_details step @ nl else [])
         @ (if s_attempt step > 1
            then ''      '' @ icon_arrow @ '' Attempt: '' @ str_int (s_attempt step) @ nl
            else []))"

definition render_error :: "error_data \<Rightarrow> string" where
  "render_error error =
     (if e_severity error \<in> set [''HIGH'', ''CRITICAL'']
      then ''  '' @ icon_siren @ '' '' @ e_category error @ '': '' @ e_error error @ nl
           @ (if e_suggestion error \<noteq> []
              then ''      '' @ icon_bulb @ '' Suggestion: '' @ e_suggestion error @ nl
              else [])
      else [])"

definition render_warning :: "warning_data \<Rightarrow> string" where
  "render_warning warning =
     ''  '' @ icon_warning @ ''  '' @ w_category warning @ '': '' @ w_warning warning @ nl
     @ (if w_suggestion warning \<noteq> []
        then ''      '' @ icon_bulb @ '' Suggestion: '' @ w_suggestion warning @ nl
        else [])"

definition recommendations ::
  "error_data list \<Rightarrow> warning_data list \<Rightarrow> bool \<Rightarrow> string list" where
  "recommendations es ws succ =
     (let r1 = (if list_ex (\<lambda>error. py_in ''Network'' (e_category error)) es
                then [bullet @ '' Check your internet connection and firewall settings'']
                else []);
          r2 = (if list_ex (\<lambda>error. py_in ''Installer'' (e_category error)) es
                then [bullet @ '' Verify the installer file is complete and not corrupted'']
                else []);
          r3 = (if list_ex (\<lambda>error. py_in ''Disk'' (w_category error)) ws
                then [bullet @ '' Free up disk space on your desktop drive'']
                else []);
          r4 = (if list_ex (\<lambda>error. py_in ''File Verification'' (e_category error)) es
                then [bullet @ '' The installer may be blocked from downloading files'',
                      bullet @ '' Try running as Administrator'',
                      bullet @ '' Check antivirus software isn't blocking the installation'']
                else []);
          recs = r1 @ r2 @ r3 @ r4
      in if recs = []
         then (if succ
               then [bullet @ '' Installation completed successfully!'',
                     bullet @ '' Run: START M3U Matrix.bat'']
               else [bullet @ '' Review the errors above and try again'',
                     bullet @ '' Contact support with the audit log''])
         else recs)"

text \<open>
  The text of the report, from the values \<open>generate_comprehensive_report\<close> reads: the
  errors and warnings of the tracker, the steps, the start time and the success flag of
  the audit, and the end time it has just taken from the clock.
\<close>

definition report_text ::
  "env \<Rightarrow> error_data list \<Rightarrow> warning_data list \<Rightarrow> step_data list \<Rightarrow> timestamp \<Rightarrow> timestamp
     \<Rightarrow> bool \<Rightarrow> string" where
  "report_text E es ws stps start end succ =
     nl @ box_top @ nl
     @ box_side @ ''          M3U MATRIX CDS v5.0 - ENHANCED AUDIT REPORT       '' @ box_side @ nl
     @ box_bottom @ nl
     @ nl
     @ ''TIMELINE:'' @ nl
     @ ''  Start    : '' @ start @ nl
     @ ''  End      : '' @ end @ nl
     @ ''  Duration : '' @ duration_str E start end @ nl
     @ nl
     @ ''SUMMARY:'' @ nl
     @ ''  Success  : '' @ (if succ then icon_check @ '' YES'' else icon_cross @ '' NO'') @ nl
     @ ''  Errors   : '' @ str_nat (length es) @ nl
     @ ''  Warnings : '' @ str_nat (length ws) @ nl
     @ nl
     @ ''ERROR SEVERITY BREAKDOWN:'' @ nl
     @ render_counts (fst (error_summary es))
     @ nl @ ''ERROR CATEGORIES:'' @ nl
     @ render_counts (snd (error_summary es))
     @ nl @ ''DETAILED STEPS:'' @ nl
     @ concat (map render_step stps)
     @ (if es \<noteq> [] then nl @ ''CRITICAL ERRORS:'' @ nl @ concat (map render_error es) else [])
     @ (if ws \<noteq> [] then nl @ ''WARNINGS:'' @ nl @ concat (map render_warning ws) else [])
     @ nl @ ''RECOMMENDATIONS:'' @ nl
     @ concat (map (\<lambda>rec. ''  '' @ rec @ nl) (recommendations es ws succ))
     @ nl @ ''FILES:'' @ nl
     @ ''  Log          : '' @ LOG_FILE E @ nl
     @ ''  Report       : '' @ REPORT_FILE E @ nl
     @ ''  Diagnostics  : '' @ DIAGNOSTICS_FILE E @ nl
     @ ''  Installer    : '' @ BAT_FILE @ nl
     @ ''  Location     : '' @ INSTALL_DIR E @ nl
     @ nl
     @ ''Thank you for using M3U Matrix CDS v5.0!'' @ nl"

definition generate_comprehensive_report :: "env \<Rightarrow> state \<Rightarrow> string \<times> state" where
  "generate_comprehensive_report E st =
     (let (t, st1) = now E st;
          st2 = st1\<lparr>audit := (audit st1)\<lparr>end_time := Some t\<rparr>\<rparr>;
          report = report_text E (errors (error_tracker st2)) (warnings (error_tracker st2))
                     (steps (audit st2)) (start_time (audit st2)) t (success (audit st2));
          st3 = record_event (WriteFile (REPORT_FILE E)) st2
      in case report_write_error E of
           None \<Rightarrow>
             (report,
              safe_log E (''Comprehensive audit report saved: '' @ REPORT_FILE E) ''INFO'' st3)
         | Some e \<Rightarrow>
             (report, safe_log E (''Failed to save report: '' @ e) ''INFO'' st3))"

section \<open>run_system_diagnostics and main\<close>

text \<open>
  The dictionary of host facts that \<open>run_system_diagnostics\<close> builds and saves holds
  floating-point figures and paths of the host; \<open>main\<close> never reads it. The model keeps
  what the function does to the tracker, the audit and the outside world.
\<close>

definition run_system_diagnostics :: "env \<Rightarrow> state \<Rightarrow> state" where
  "run_system_diagnostics E st =
     (let st1 = add_step E ''Run system diagnostics'' ''RUNNING'' [] 1 st;
          st2 = record_event DiskUsage st1
      in case disk_usage E of
           Inl e \<Rightarrow>
             add_step E ''Run system diagnostics'' ''FAILED'' e 1
               (snd (tracker_add_error E ''Diagnostics'' e ''LOW'' [] st2))
         | Inr disk \<Rightarrow>
             (let st3 = (if percent_gt_90 disk
                         then snd (tracker_add_warning E ''Disk Space''
                                     (''Low disk space: '' @ percent_str disk @ ''% used'')
                                     ''Free up space on your desktop drive'' st2)
                         else st2);
                  st4 = record_event HttpGet st3;
                  st5 = (if internet_access E then st4
                         else snd (tracker_add_error E ''Network'' ''No internet connection''
                                     ''HIGH'' ''Check your internet connection and try again'' st4));
                  st6 = record_event (WriteFile (DIAGNOSTICS_FILE E)) st5
              in case diagnostics_write_error E of
                   Some e \<Rightarrow>
                     add_step E ''Run system diagnostics'' ''FAILED'' e 1
                       (snd (tracker_add_error E ''Diagnostics'' e ''LOW'' [] st6))
                 | None \<Rightarrow>
                     add_step E ''Run system diagnostics'' ''SUCCESS''
                       (''Saved to '' @ DIAGNOSTICS_FILE E) 1 st6))"

text \<open>
  \<open>main\<close>, without its \<open>print\<close> calls. It gives the state it ends in and, when it gets
  as far as the report, the values of its local variables \<open>installation_success\<close>,
  \<open>verification\<close> and \<open>report\<close>; \<open>None\<close> stands for the two early returns. No
  call in it raises in the model (the functions it calls catch their own exceptions),
  so its last handler is not entered.
\<close>

definition create_installation_folder :: "env \<Rightarrow> state \<Rightarrow> state" where
  "create_installation_folder E st =
     (let st1 = add_step E ''Create installation folder'' ''RUNNING'' [] 1 st;
          st2 = record_event (PathExists (INSTALL_DIR E)) st1;
          st3 = (if install_dir_exists_before E
                 then sleep 2 (record_event (Rmtree (INSTALL_DIR E))
                                 (safe_log E ''Removing old installation folder...'' ''INFO'' st2))
                 else st2);
          st4 = record_event (Mkdir (INSTALL_DIR E)) st3
      in case mkdir_error E of
           None \<Rightarrow>
             add_step E ''Create installation folder'' ''SUCCESS''
               (''Created: '' @ INSTALL_DIR E) 1 st4
         | Some e \<Rightarrow>
             add_step E ''Create installation folder'' ''FAILED'' e 1
               (snd (tracker_add_error E ''Folder Creation'' e ''HIGH'' [] st4)))"

definition main :: "env \<Rightarrow> state \<Rightarrow> (bool \<times> verification \<times> string) option \<times> state" where
  "main E st =
     (let st1 = safe_log E ''=== ENHANCED M3U INSTALL MONITOR STARTED ==='' ''INFO'' st;
          st2 = run_system_diagnostics E st1;
          (installer_ok, checks, st3) = verify_installer_comprehensive E st2
      in if \<not> installer_ok then (None, record_event Input st3)
         else
           (let st4 = create_installation_folder E st3;
                st5 = record_event Input st4
            in if choice E \<notin> set [''y'', ''yes'']
               then (None, safe_log E ''User cancelled enhanced installation'' ''INFO'' st5)
               else
                 (let st6 = safe_log E ''Starting enhanced installation with retry support...''
                              ''INFO'' st5;
                      (installation_success, st7) = run_installer_with_retries E 3 st6;
                      (verification, st8) = verify_installation_comprehensive E st7;
                      st9 = st8\<lparr>audit := (audit st8)
                              \<lparr>success := (installation_success
                                              \<and> length (files_missing verification) = 0)\<rparr>\<rparr>;
                      (report, st10) = generate_comprehensive_report E st9;
                      st11 = safe_log E ''=== ENHANCED MONITORING COMPLETED ==='' ''INFO'' st10
                  in (Some (installation_success, verification, report),
                      record_event Input st11))))"

text \<open>
  The state in which \<open>main\<close> calls \<open>run_installer_with_retries\<close>, when the installer
  passed its verification and the user confirmed.
\<close>

definition state_before_install :: "env \<Rightarrow> state \<Rightarrow> state" where
  "state_before_install E st =
     safe_log E ''Starting enhanced installation with retry support...'' ''INFO''
       (record_event Input
          (create_installation_folder E
             (snd (snd (verify_installer_comprehensive E
                (run_system_diagnostics E
                   (safe_log E ''=== ENHANCED M3U INSTALL MONITOR STARTED ==='' ''INFO'' st)))))))"

text \<open>
  A host on which the installation folder cannot be created, with an installer that
  exits at once with code 0.
\<close>

definition env_no_directory :: env where
  "env_no_directory =
     (example_env (\<lambda>a. Launched (Exits 0 0)))
       \<lparr>bat_file := Some tiny_text_file, mkdir_error := Some ''denied''\<rparr>"

section \<open>Properties of the tracker\<close>

lemma get_retry_count_increment_same:
  "get_retry_count (increment_retry tr c) c = get_retry_count tr c + 1"
  by (simp add: get_retry_count_def increment_retry_def)

lemma get_retry_count_increment_other:
  "c' \<noteq> c \<Longrightarrow> get_retry_count (increment_retry tr c) c' = get_retry_count tr c'"
  by (simp add: get_retry_count_def increment_retry_def)

lemma increment_retry_errors: "errors (increment_retry tr c) = errors tr"
  by (simp add: increment_retry_def)

lemma increment_retry_warnings: "warnings (increment_retry tr c) = warnings tr"
  by (simp add: increment_retry_def)

lemma get_retry_count_init: "get_retry_count ErrorTracker_init c = 0"
  by (simp add: get_retry_count_def ErrorTracker_init_def)

lemma get_retry_count_foldl:
  "get_retry_count (foldl increment_retry tr cs) c = get_retry_count tr c + count_list cs c"
proof (induction cs arbitrary: tr)
  case Nil
  show ?case by simp
next
  case (Cons x xs)
  show ?case
  proof (cases "x = c")
    case True
    then show ?thesis
      using Cons.IH [of "increment_retry tr x"]
      by (simp add: get_retry_count_increment_same)
  next
    case False
    then have "get_retry_count (increment_retry tr x) c = get_retry_count tr c"
      by (simp add: get_retry_count_increment_other)
    with False show ?thesis
      using Cons.IH [of "increment_retry tr x"] by simp
  qed
qed

text \<open>
  C10. \<open>increment_retry c\<close> raises \<open>get_retry_count c\<close> by exactly one, leaves the count of
  every other category and the stored error and warning sequences as they were; and on
  a tracker that starts fresh, the count of a category is the number of times it was
  incremented, so it is 0 for a category that never was.
\<close>

theorem increment_retry_frame:
  "get_retry_count (increment_retry tr c) c = get_retry_count tr c + 1
   \<and> (\<forall>c'. c' \<noteq> c \<longrightarrow> get_retry_count (increment_retry tr c) c' = get_retry_count tr c')
   \<and> errors (increment_retry tr c) = errors tr
   \<and> warnings (increment_retry tr c) = warnings tr
   \<and> get_retry_count ErrorTracker_init c = 0
   \<and> (\<forall>cs. c \<notin> set cs \<longrightarrow> get_retry_count (foldl increment_retry ErrorTracker_init cs) c = 0)"
  by (simp add: get_retry_count_increment_same get_retry_count_increment_other
      increment_retry_errors increment_retry_warnings get_retry_count_init
      get_retry_count_foldl)

theorem increment_retry_frame_witness:
  "''Network'' \<noteq> ''Installer Execution''
   \<and> get_retry_count (increment_retry ErrorTracker_init ''Installer Execution'') ''Network''
       = get_retry_count ErrorTracker_init ''Network''
   \<and> ''Installer Execution'' \<notin> set [''Network'', ''Disk Space'']
   \<and> get_retry_count
        (foldl increment_retry ErrorTracker_init [''Network'', ''Disk Space''])
        ''Installer Execution'' = 0"
proof -
  note f = increment_retry_frame [of ErrorTracker_init "''Installer Execution''"]
  have a: "''Network'' \<noteq> ''Installer Execution''"
    by simp
  have b: "''Installer Execution'' \<notin> set [''Network'', ''Disk Space'']"
    by simp
  note f1 = f [THEN conjunct2, THEN conjunct1, rule_format, OF a]
  note f2 = f [THEN conjunct2, THEN conjunct2, THEN conjunct2, THEN conjunct2, THEN conjunct2,
    rule_format, OF b]
  show ?thesis
    by (intro conjI a b f1 f2)
qed

section \<open>The primitives and the monitoring loop\<close>

lemmas prim_defs = safe_log_def now_def add_step_def tracker_add_error_def add_error_def
  tracker_add_warning_def add_warning_def tracker_increment_retry_def popen_def poll_def
  sleep_def record_event_def Let_def split_def

lemma safe_log_frame [simp]:
  "audit (safe_log E m l st) = audit st"
  "error_tracker (safe_log E m l st) = error_tracker st"
  "events (safe_log E m l st) = events st"
  "polls (safe_log E m l st) = polls st"
  by (simp_all add: prim_defs)

lemma add_step_frame [simp]:
  "error_tracker (add_step E n s d a st) = error_tracker st"
  "events (add_step E n s d a st) = events st"
  "polls (add_step E n s d a st) = polls st"
  "map step_view (steps (audit (add_step E n s d a st))) = map step_view (steps (audit st)) @ [(n, s, d, a)]"
  by (simp_all add: prim_defs step_view_def)

lemma tracker_add_error_frame [simp]:
  "audit (snd (tracker_add_error E c e s g st)) = audit st"
  "events (snd (tracker_add_error E c e s g st)) = events st"
  "polls (snd (tracker_add_error E c e s g st)) = polls st"
  "retries (error_tracker (snd (tracker_add_error E c e s g st))) = retries (error_tracker st)"
  "warnings (error_tracker (snd (tracker_add_error E c e s g st))) = warnings (error_tracker st)"
  "map error_view (errors (error_tracker (snd (tracker_add_error E c e s g st))))
     = map error_view (errors (error_tracker st))
       @ [(c, e, s, g, get_retry_count (error_tracker st) c)]"
  by (simp_all add: prim_defs error_view_def get_retry_count_def)

lemma tracker_increment_retry_frame [simp]:
  "audit (tracker_increment_retry c st) = audit st"
  "events (tracker_increment_retry c st) = events st"
  "polls (tracker_increment_retry c st) = polls st"
  "errors (error_tracker (tracker_increment_retry c st)) = errors (error_tracker st)"
  "warnings (error_tracker (tracker_increment_retry c st)) = warnings (error_tracker st)"
  "get_retry_count (error_tracker (tracker_increment_retry c st)) c
     = get_retry_count (error_tracker st) c + 1"
  by (simp_all add: prim_defs increment_retry_def get_retry_count_def)

lemma popen_frame [simp]:
  "audit (popen st) = audit st"
  "error_tracker (popen st) = error_tracker st"
  "events (popen st) = events st @ [Popen]"
  "polls (popen st) = 0"
  by (simp_all add: prim_defs)

lemma poll_frame [simp]:
  "fst (poll p st) = proc_poll p (polls st)"
  "audit (snd (poll p st)) = audit st"
  "error_tracker (snd (poll p st)) = error_tracker st"
  "events (snd (poll p st)) = events st @ [Poll]"
  "polls (snd (poll p st)) = polls st + 1"
  by (simp_all add: prim_defs)

lemma sleep_frame [simp]:
  "audit (sleep n st) = audit st"
  "error_tracker (sleep n st) = error_tracker st"
  "events (sleep n st) = events st @ [Sleep n]"
  "polls (sleep n st) = polls st"
  by (simp_all add: prim_defs)

lemma get_retry_count_cong:
  "retries tr = retries tr' \<Longrightarrow> get_retry_count tr c = get_retry_count tr' c"
  by (simp add: get_retry_count_def)

lemma monitor_frame [simp]:
  "audit (monitor E p a ns st) = audit st \<and> error_tracker (monitor E p a ns st) = error_tracker st"
proof (induction ns arbitrary: st)
  case Nil
  show ?case by simp
next
  case (Cons x xs)
  show ?case
    by (simp add: Let_def split_def Cons.IH)
qed

lemma launches_simps [simp]:
  "launches (safe_log E m l st) = launches st"
  "launches (add_step E n s d a st) = launches st"
  "launches (snd (tracker_add_error E c e sv g st)) = launches st"
  "launches (tracker_increment_retry c st) = launches st"
  "launches (popen st) = launches st + 1"
  "launches (snd (poll p st)) = launches st"
  "launches (sleep k st) = launches st"
  by (simp_all add: launches_def)

lemma monitor_step:
  "monitor E p a (i # rest) st =
     (if proc_poll p (polls st) \<noteq> None then snd (poll p (sleep 1 st))
      else monitor E p a rest
             (if i mod 30 = 0
              then safe_log E (''Installer running... ('' @ str_nat i @ ''s, attempt ''
                                 @ str_int a @ '')'') ''INFO'' (snd (poll p (sleep 1 st)))
              else snd (poll p (sleep 1 st))))"
  by (simp add: Let_def split_def)

lemma monitor_launches [simp]:
  "launches (monitor E p a ns st) = launches st"
proof (induction ns arbitrary: st)
  case Nil
  show ?case by simp
next
  case (Cons x xs)
  show ?case
    unfolding monitor_step by (simp add: Cons.IH)
qed

lemma monitor_final_poll:
  assumes "ns = [i..<n]" and "polls st = i" and "i \<le> n"
  shows "proc_poll p (polls (monitor E p a ns st)) = proc_poll p n"
  using assms
proof (induction ns arbitrary: i st)
  case Nil
  from Nil.prems(1) [symmetric] Nil.prems(3) have "i = n" by auto
  with Nil.prems(2) show ?case by simp
next
  case (Cons x xs)
  from Cons.prems(1) [symmetric] have x: "x = i" and lt: "i < n" and xs: "xs = [Suc i..<n]"
    by (auto simp add: upt_eq_Cons_conv)
  show ?case
  proof (cases "proc_poll p i")
    case None
    let ?st2 = "snd (poll p (sleep 1 st))"
    let ?st3 = "if x mod 30 = 0
                 then safe_log E (''Installer running... ('' @ str_nat x @ ''s, attempt ''
                                    @ str_int a @ '')'') ''INFO'' ?st2
                 else ?st2"
    have p3: "polls ?st3 = Suc i"
      using Cons.prems(2) by simp
    have "Suc i \<le> n" using lt by simp
    from Cons.IH [OF xs p3 this]
    have "proc_poll p (polls (monitor E p a xs ?st3)) = proc_poll p n" .
    moreover have "monitor E p a (x # xs) st = monitor E p a xs ?st3"
      unfolding monitor_step using None Cons.prems(2) by simp
    ultimately show ?thesis by simp
  next
    case (Some rc)
    then obtain t where p: "p = Exits t rc" and t: "t \<le> i"
      by (cases p) (auto split: if_splits)
    have "monitor E p a (x # xs) st = snd (poll p (sleep 1 st))"
      unfolding monitor_step using Some Cons.prems(2) by simp
    then show ?thesis
      using p t lt Cons.prems(2) by simp
  qed
qed

lemma monitor_timeout_events:
  assumes "ns = [i..<n]" and "polls st = i" and "\<forall>k<n. proc_poll p k = None"
  shows "events (monitor E p a ns st) = events st @ concat (replicate (n - i) [Sleep 1, Poll])
         \<and> polls (monitor E p a ns st) = max i n"
  using assms(1,2)
proof (induction ns arbitrary: i st)
  case Nil
  from Nil.prems(1) [symmetric] have "n \<le> i" by auto
  then show ?case using Nil.prems(2) by simp
next
  case (Cons x xs)
  from Cons.prems(1) [symmetric] have x: "x = i" and lt: "i < n" and xs: "xs = [Suc i..<n]"
    by (auto simp add: upt_eq_Cons_conv)
  from lt assms(3) have none: "proc_poll p i = None" by simp
  let ?st2 = "snd (poll p (sleep 1 st))"
  let ?st3 = "if x mod 30 = 0
               then safe_log E (''Installer running... ('' @ str_nat x @ ''s, attempt ''
                                  @ str_int a @ '')'') ''INFO'' ?st2
               else ?st2"
  have p3: "polls ?st3 = Suc i" and e3: "events ?st3 = events st @ [Sleep 1, Poll]"
    using Cons.prems(2) by simp_all
  have n: "n - i = Suc (n - Suc i)" using lt by simp
  have m: "monitor E p a (x # xs) st = monitor E p a xs ?st3"
    unfolding monitor_step using none Cons.prems(2) by simp
  have mx: "max (Suc i) n = max i n" using lt by simp
  from Cons.IH [OF xs p3]
  have "events (monitor E p a xs ?st3) = events ?st3 @ concat (replicate (n - Suc i) [Sleep 1, Poll])
        \<and> polls (monitor E p a xs ?st3) = max (Suc i) n" .
  then show ?case
    unfolding m e3 n mx by simp
qed

lemma tracker_add_error_count [simp]:
  "get_retry_count (error_tracker (snd (tracker_add_error E c e s g st))) c'
     = get_retry_count (error_tracker st) c'"
  by (simp add: get_retry_count_def)

lemma final_poll:
  "polls st = 0 \<Longrightarrow>
   proc_poll p (polls (monitor E p a [0..<max_wait] st)) = proc_poll p max_wait"
  by (rule monitor_final_poll [where i = 0]) simp_all

lemma attempt_body_launch_error:
  assumes "launch E a = LaunchError e"
  shows "fst (attempt_body E m a st) = (if a < m then None else Some False)"
    and "launches (snd (attempt_body E m a st)) = launches st + 1"
    and "map step_view (steps (audit (snd (attempt_body E m a st))))
           = map step_view (steps (audit st)) @ [(attempt_name a, ''RUNNING'', [], a)]"
    and "map error_view (errors (error_tracker (snd (attempt_body E m a st))))
           = map error_view (errors (error_tracker st))
             @ [(''Installer Execution'', ''Attempt '' @ str_int a @ '' crashed: '' @ e,
                 severity_of m a, [],
                 get_retry_count (error_tracker st) ''Installer Execution'' + 1)]"
    and "get_retry_count (error_tracker (snd (attempt_body E m a st))) ''Installer Execution''
           = get_retry_count (error_tracker st) ''Installer Execution'' + 1"
    and "events (snd (attempt_body E m a st))
           = events st @ [Popen] @ (if a < m then [Sleep 5] else [])"
  using assms
  by (simp_all add: attempt_body_def Let_def split_def attempt_name_def severity_of_def)

lemma attempt_body_failed:
  assumes "launch E a = Launched p" and "proc_poll p max_wait \<noteq> Some 0"
  shows "fst (attempt_body E m a st) = (if a < m then None else Some False)"
    and "launches (snd (attempt_body E m a st)) = launches st + 1"
    and "map step_view (steps (audit (snd (attempt_body E m a st))))
           = map step_view (steps (audit st))
             @ [(attempt_name a, ''RUNNING'', [], a),
                (attempt_name a, ''FAILED'', status_msg_of (proc_poll p max_wait), 1)]"
    and "map error_view (errors (error_tracker (snd (attempt_body E m a st))))
           = map error_view (errors (error_tracker st))
             @ [(''Installer Execution'',
                 ''Attempt '' @ str_int a @ '' failed: '' @ status_msg_of (proc_poll p max_wait),
                 severity_of m a,
                 (if a < m then ''Retrying... ('' @ str_int a @ ''/'' @ str_int m @ '')''
                  else ''All retries exhausted''),
                 get_retry_count (error_tracker st) ''Installer Execution'' + 1)]"
    and "get_retry_count (error_tracker (snd (attempt_body E m a st))) ''Installer Execution''
           = get_retry_count (error_tracker st) ''Installer Execution'' + 1"
    and "a < m \<Longrightarrow> last (events (snd (attempt_body E m a st))) = Sleep 5"
  using assms
  by (simp_all add: attempt_body_def Let_def split_def attempt_name_def severity_of_def
      status_msg_of_def final_poll)

lemma attempt_body_success:
  assumes "launch E a = Launched p" and "proc_poll p max_wait = Some 0"
  shows "fst (attempt_body E m a st) = Some True"
    and "launches (snd (attempt_body E m a st)) = launches st + 1"
    and "map step_view (steps (audit (snd (attempt_body E m a st))))
           = map step_view (steps (audit st))
             @ [(attempt_name a, ''RUNNING'', [], a),
                (attempt_name a, ''SUCCESS'', ''Completed on attempt '' @ str_int a, 1)]"
    and "errors (error_tracker (snd (attempt_body E m a st))) = errors (error_tracker st)"
    and "get_retry_count (error_tracker (snd (attempt_body E m a st))) ''Installer Execution''
           = get_retry_count (error_tracker st) ''Installer Execution'' + 1"
  using assms
  by (simp_all add: attempt_body_def Let_def split_def attempt_name_def final_poll)

lemma retry_loop_continue:
  assumes "j \<le> m" and "fst (attempt_body E m j st) = None"
  shows "retry_loop E m [j..m] st = retry_loop E m [j + 1..m] (snd (attempt_body E m j st))"
  using assms by (cases "attempt_body E m j st") (simp add: upto_rec1)

lemma retry_loop_return:
  assumes "j \<le> m" and "fst (attempt_body E m j st) = Some b"
  shows "retry_loop E m [j..m] st = (b, snd (attempt_body E m j st))"
  using assms by (cases "attempt_body E m j st") (simp add: upto_rec1)

lemma map_s_status: "map s_status xs = map (\<lambda>v. fst (snd v)) (map step_view xs)"
  by (simp add: step_view_def)

lemma attempt_body_failed_statuses:
  assumes "launch E a = Launched p" and "proc_poll p max_wait \<noteq> Some 0"
  shows "map s_status (steps (audit (snd (attempt_body E m a st))))
           = map s_status (steps (audit st)) @ [''RUNNING'', ''FAILED'']"
  unfolding map_s_status attempt_body_failed(3) [OF assms] by simp

lemma attempt_body_failed_errors:
  assumes "launch E a = Launched p" and "proc_poll p max_wait \<noteq> Some 0"
  shows "length (errors (error_tracker (snd (attempt_body E m a st))))
           = length (errors (error_tracker st)) + 1"
proof -
  have "length (map error_view (errors (error_tracker (snd (attempt_body E m a st)))))
          = length (map error_view (errors (error_tracker st))) + 1"
    unfolding attempt_body_failed(4) [OF assms] by simp
  then show ?thesis by simp
qed

lemma retry_loop_all_failed:
  assumes "\<forall>a\<in>{j..m}. \<exists>p. launch E a = Launched p \<and> proc_poll p max_wait \<noteq> Some 0"
  shows "fst (retry_loop E m [j..m] st) = False
         \<and> launches (snd (retry_loop E m [j..m] st)) = launches st + nat (m + 1 - j)
         \<and> map s_status (steps (audit (snd (retry_loop E m [j..m] st))))
             = map s_status (steps (audit st))
               @ concat (replicate (nat (m + 1 - j)) [''RUNNING'', ''FAILED''])
         \<and> get_retry_count (error_tracker (snd (retry_loop E m [j..m] st))) ''Installer Execution''
             = get_retry_count (error_tracker st) ''Installer Execution'' + nat (m + 1 - j)
         \<and> length (errors (error_tracker (snd (retry_loop E m [j..m] st))))
             = length (errors (error_tracker st)) + nat (m + 1 - j)"
  using assms
proof (induction j m arbitrary: st rule: upto.induct)
  case (1 j m)
  show ?case
  proof (cases "j \<le> m")
    case False
    then have "[j..m] = []" and "nat (m + 1 - j) = 0" by simp_all
    then show ?thesis by simp
  next
    case True
    then have "j \<in> {j..m}" by simp
    from bspec [OF "1.prems" this]
    obtain p where p: "launch E j = Launched p" "proc_poll p max_wait \<noteq> Some 0"
      by (elim exE conjE)
    note body = attempt_body_failed [OF p, of m st] attempt_body_failed_statuses [OF p, of m st]
      attempt_body_failed_errors [OF p, of m st]
    show ?thesis
    proof (cases "j < m")
      case False
      with True have jm: "j = m" by simp
      then have "fst (attempt_body E m j st) = Some False"
        using body(1) by simp
      from retry_loop_return [OF True this] jm body show ?thesis
        by simp
    next
      case lt: True
      then have f: "fst (attempt_body E m j st) = None"
        using body(1) by simp
      have n: "nat (m + 1 - j) = Suc (nat (m + 1 - (j + 1)))"
        using lt by simp
      have "\<forall>a\<in>{j + 1..m}. \<exists>p. launch E a = Launched p \<and> proc_poll p max_wait \<noteq> Some 0"
      proof (intro ballI)
        fix a assume "a \<in> {j + 1..m}"
        then have "a \<in> {j..m}" by simp
        from bspec [OF "1.prems" this]
        show "\<exists>p. launch E a = Launched p \<and> proc_poll p max_wait \<noteq> Some 0" .
      qed
      from "1.IH" [OF True this, of "snd (attempt_body E m j st)"] body
      show ?thesis
        unfolding retry_loop_continue [OF True f] n by simp
    qed
  qed
qed

lemma attempt_body_not_success:
  assumes "\<forall>q. launch E a = Launched q \<longrightarrow> proc_poll q max_wait \<noteq> Some 0"
  shows "fst (attempt_body E m a st) = (if a < m then None else Some False)"
    and "launches (snd (attempt_body E m a st)) = launches st + 1"
    and "get_retry_count (error_tracker (snd (attempt_body E m a st))) ''Installer Execution''
           = get_retry_count (error_tracker st) ''Installer Execution'' + 1"
proof -
  show "fst (attempt_body E m a st) = (if a < m then None else Some False)"
  proof (cases "launch E a")
    case (LaunchError e)
    then show ?thesis by (rule attempt_body_launch_error(1))
  next
    case (Launched q)
    with assms have "proc_poll q max_wait \<noteq> Some 0" by simp
    with Launched show ?thesis by (rule attempt_body_failed(1))
  qed
  show "launches (snd (attempt_body E m a st)) = launches st + 1"
  proof (cases "launch E a")
    case (LaunchError e)
    then show ?thesis by (rule attempt_body_launch_error(2))
  next
    case (Launched q)
    with assms have "proc_poll q max_wait \<noteq> Some 0" by simp
    with Launched show ?thesis by (rule attempt_body_failed(2))
  qed
  show "get_retry_count (error_tracker (snd (attempt_body E m a st))) ''Installer Execution''
           = get_retry_count (error_tracker st) ''Installer Execution'' + 1"
  proof (cases "launch E a")
    case (LaunchError e)
    then show ?thesis by (rule attempt_body_launch_error(5))
  next
    case (Launched q)
    with assms have "proc_poll q max_wait \<noteq> Some 0" by simp
    with Launched show ?thesis by (rule attempt_body_failed(5))
  qed
qed

lemma retry_loop_success_at:
  assumes "j \<le> k" and "k \<le> m"
    and "launch E k = Launched p" and "proc_poll p max_wait = Some 0"
    and "\<forall>a\<in>{j..<k}. \<forall>q. launch E a = Launched q \<longrightarrow> proc_poll q max_wait \<noteq> Some 0"
  shows "fst (retry_loop E m [j..m] st) = True
         \<and> launches (snd (retry_loop E m [j..m] st)) = launches st + nat (k + 1 - j)
         \<and> last (map step_view (steps (audit (snd (retry_loop E m [j..m] st)))))
             = (attempt_name k, ''SUCCESS'', ''Completed on attempt '' @ str_int k, 1)
         \<and> get_retry_count (error_tracker (snd (retry_loop E m [j..m] st))) ''Installer Execution''
             = get_retry_count (error_tracker st) ''Installer Execution'' + nat (k + 1 - j)"
  using assms(1,5)
proof (induction "nat (k - j)" arbitrary: j st)
  case 0
  then have jk: "j = k" by simp
  with assms(2) have le: "j \<le> m" by simp
  note body = attempt_body_success [OF assms(3,4), of m st]
  from retry_loop_return [OF le, of E st True] body jk show ?case
    by simp
next
  case (Suc n)
  then have lt: "j < k" and n: "n = nat (k - (j + 1))" by simp_all
  with assms(2) have le: "j \<le> m" and ltm: "j < m" by simp_all
  from lt have "j \<in> {j..<k}" by simp
  from bspec [OF Suc.prems(2) this]
  have ns: "\<forall>q. launch E j = Launched q \<longrightarrow> proc_poll q max_wait \<noteq> Some 0" .
  note body = attempt_body_not_success [OF ns, of m st]
  from body(1) ltm have f: "fst (attempt_body E m j st) = None" by simp
  have rest: "\<forall>a\<in>{j + 1..<k}. \<forall>q. launch E a = Launched q \<longrightarrow> proc_poll q max_wait \<noteq> Some 0"
  proof (intro ballI)
    fix a assume "a \<in> {j + 1..<k}"
    then have "a \<in> {j..<k}" by simp
    from bspec [OF Suc.prems(2) this]
    show "\<forall>q. launch E a = Launched q \<longrightarrow> proc_poll q max_wait \<noteq> Some 0" .
  qed
  have le': "j + 1 \<le> k" using lt by simp
  have c: "nat (k + 1 - j) = Suc (nat (k + 1 - (j + 1)))" using lt by simp
  from Suc.hyps(1) [OF n le' rest, of "snd (attempt_body E m j st)"] body(2,3)
  show ?case
    unfolding retry_loop_continue [OF le f] c by simp
qed

section \<open>The retry loop\<close>

lemma count_failed_statuses:
  "length (filter (\<lambda>s. s = ''FAILED'') (concat (replicate n [''RUNNING'', ''FAILED'']))) = n"
  by (induction n) simp_all

text \<open>
  C1. When every attempt up to \<open>max_attempts = N\<close> launches an installer that exits
  with a non-zero code within the wait, \<open>run_installer_with_retries\<close> launches the
  installer exactly \<open>N\<close> times, appends for each attempt a RUNNING step followed by a
  FAILED step (so \<open>N\<close> FAILED steps), raises the retry counter by \<open>N\<close> and returns
  \<open>False\<close>. (\<open>nat N\<close> is \<open>N\<close> for \<open>N \<ge> 0\<close>; a negative bound runs no attempt.)
\<close>

theorem all_attempts_nonzero:
  assumes "\<forall>a\<in>{1..N}. \<exists>t rc. launch E a = Launched (Exits t rc) \<and> t \<le> max_wait \<and> rc \<noteq> 0"
  shows "fst (run_installer_with_retries E N st) = False
         \<and> launches (snd (run_installer_with_retries E N st)) = launches st + nat N
         \<and> map s_status (steps (audit (snd (run_installer_with_retries E N st))))
             = map s_status (steps (audit st)) @ concat (replicate (nat N) [''RUNNING'', ''FAILED''])
         \<and> length (filter (\<lambda>s. s = ''FAILED'')
                     (drop (length (steps (audit st)))
                        (map s_status (steps (audit (snd (run_installer_with_retries E N st)))))))
             = nat N
         \<and> get_retry_count (error_tracker (snd (run_installer_with_retries E N st)))
               ''Installer Execution''
             = get_retry_count (error_tracker st) ''Installer Execution'' + nat N"
proof -
  have "\<forall>a\<in>{1..N}. \<exists>p. launch E a = Launched p \<and> proc_poll p max_wait \<noteq> Some 0"
  proof (intro ballI)
    fix a assume "a \<in> {1..N}"
    from bspec [OF assms this] obtain t rc
      where "launch E a = Launched (Exits t rc)" "t \<le> max_wait" "rc \<noteq> 0"
      by (elim exE conjE)
    then have "launch E a = Launched (Exits t rc) \<and> proc_poll (Exits t rc) max_wait \<noteq> Some 0"
      by simp
    then show "\<exists>p. launch E a = Launched p \<and> proc_poll p max_wait \<noteq> Some 0" ..
  qed
  note r = retry_loop_all_failed [OF this, of st]
  have n: "nat (N + 1 - 1) = nat N" by simp
  from r show ?thesis
    unfolding run_installer_with_retries_def n
    by (simp add: count_failed_statuses)
qed

theorem all_attempts_nonzero_witness:
  "fst (run_installer_with_retries (example_env (\<lambda>a. Launched (Exits 2 1))) 3
            (initial_state (example_env (\<lambda>a. Launched (Exits 2 1))))) = False
   \<and> launches (snd (run_installer_with_retries (example_env (\<lambda>a. Launched (Exits 2 1))) 3
            (initial_state (example_env (\<lambda>a. Launched (Exits 2 1)))))) = 3
   \<and> map s_status (steps (audit (snd (run_installer_with_retries
            (example_env (\<lambda>a. Launched (Exits 2 1))) 3
            (initial_state (example_env (\<lambda>a. Launched (Exits 2 1))))))))
       = [''RUNNING'', ''FAILED'', ''RUNNING'', ''FAILED'', ''RUNNING'', ''FAILED'']"
proof -
  let ?E = "example_env (\<lambda>a. Launched (Exits 2 1))"
  have h: "\<forall>a\<in>{1..3}. \<exists>t rc. launch ?E a = Launched (Exits t rc) \<and> t \<le> max_wait \<and> rc \<noteq> 0"
    by (simp add: example_env_def max_wait_def)
  have l0: "launches (initial_state ?E) = 0" "steps (audit (initial_state ?E)) = []"
    by (simp_all add: launches_def initial_state_def)
  have r: "concat (replicate 3 [''RUNNING'', ''FAILED''])
             = [''RUNNING'', ''FAILED'', ''RUNNING'', ''FAILED'', ''RUNNING'', ''FAILED'']"
    by (simp add: numeral_3_eq_3)
  note t = all_attempts_nonzero [OF h, of "initial_state ?E"]
  from t have c1: "fst (run_installer_with_retries ?E 3 (initial_state ?E)) = False"
    by (rule conjunct1)
  from t have c2: "launches (snd (run_installer_with_retries ?E 3 (initial_state ?E))) = 3"
    by (simp add: l0)
  from t have c3: "map s_status (steps (audit (snd (run_installer_with_retries ?E 3
            (initial_state ?E)))))
       = [''RUNNING'', ''FAILED'', ''RUNNING'', ''FAILED'', ''RUNNING'', ''FAILED'']"
    by (simp add: l0 r)
  show ?thesis
    by (intro conjI c1 c2 c3)
qed

text \<open>
  C2. When attempt \<open>k \<le> max_attempts\<close> is the first whose installer exits with code 0
  within the wait (every earlier attempt failed, by a non-zero exit, a timeout or a launch
  exception), \<open>run_installer_with_retries\<close> returns \<open>True\<close> after exactly \<open>k\<close>
  launches: the last step it appends is the SUCCESS step of attempt \<open>k\<close> (named and
  described by \<open>k\<close>; its \<open>attempt\<close> field keeps the default 1), and no attempt
  \<open>k + 1\<close> is launched.
\<close>

theorem success_at_attempt:
  assumes "1 \<le> k" and "k \<le> N"
    and "launch E k = Launched (Exits t 0)" and "t \<le> max_wait"
    and "\<forall>a\<in>{1..<k}. \<forall>q. launch E a = Launched q \<longrightarrow> proc_poll q max_wait \<noteq> Some 0"
  shows "fst (run_installer_with_retries E N st) = True
         \<and> launches (snd (run_installer_with_retries E N st)) = launches st + nat k
         \<and> last (map step_view (steps (audit (snd (run_installer_with_retries E N st)))))
             = (''Run installer - Attempt '' @ str_int k, ''SUCCESS'',
                ''Completed on attempt '' @ str_int k, 1)
         \<and> get_retry_count (error_tracker (snd (run_installer_with_retries E N st)))
               ''Installer Execution''
             = get_retry_count (error_tracker st) ''Installer Execution'' + nat k"
proof -
  from assms(4) have "proc_poll (Exits t 0) max_wait = Some 0" by simp
  note r = retry_loop_success_at [OF assms(1,2,3) this assms(5), of st]
  have n: "nat (k + 1 - 1) = nat k" by simp
  from r show ?thesis
    unfolding run_installer_with_retries_def n attempt_name_def by simp
qed

theorem success_at_attempt_witness:
  "(1::int) \<le> 2 \<and> (2::int) \<le> 3
   \<and> launch (example_env second_succeeds) 2 = Launched (Exits 5 0) \<and> 5 \<le> max_wait
   \<and> fst (run_installer_with_retries (example_env second_succeeds) 3
            (initial_state (example_env second_succeeds))) = True
   \<and> launches (snd (run_installer_with_retries (example_env second_succeeds) 3
            (initial_state (example_env second_succeeds)))) = 2
   \<and> last (map step_view (steps (audit (snd (run_installer_with_retries
            (example_env second_succeeds) 3 (initial_state (example_env second_succeeds)))))))
       = (''Run installer - Attempt 2'', ''SUCCESS'', ''Completed on attempt 2'', 1)"
proof -
  let ?E = "example_env second_succeeds"
  have h1: "(1::int) \<le> 2" and h2: "(2::int) \<le> 3" by simp_all
  have h3: "launch ?E 2 = Launched (Exits 5 0)"
    by (simp add: example_env_def second_succeeds_def)
  have h4: "5 \<le> max_wait" by (simp add: max_wait_def)
  have h5: "\<forall>a\<in>{1..<2}. \<forall>q. launch ?E a = Launched q \<longrightarrow> proc_poll q max_wait \<noteq> Some 0"
  proof (intro ballI allI impI)
    fix a :: int and q assume "a \<in> {1..<2}" and l: "launch ?E a = Launched q"
    then have "a = 1" by simp
    with l show "proc_poll q max_wait \<noteq> Some 0"
      by (simp add: example_env_def second_succeeds_def)
  qed
  note t = success_at_attempt [OF h1 h2 h3 h4 h5, of "initial_state ?E"]
  have l0: "launches (initial_state ?E) = 0"
    by (simp add: launches_def initial_state_def)
  have s2: "str_int 2 = ''2''"
    by (simp add: str_int_def digit_char_def)
  from t have c1: "fst (run_installer_with_retries ?E 3 (initial_state ?E)) = True"
    by (rule conjunct1)
  from t have c2: "launches (snd (run_installer_with_retries ?E 3 (initial_state ?E))) = 2"
    by (simp add: l0)
  from t have c3: "last (map step_view (steps (audit (snd (run_installer_with_retries
            ?E 3 (initial_state ?E))))))
       = (''Run installer - Attempt 2'', ''SUCCESS'', ''Completed on attempt 2'', 1)"
    by (simp add: s2)
  show ?thesis
    by (intro conjI h1 h2 h3 h4 c1 c2 c3)
qed

lemma timeout_run_events:
  assumes "\<forall>k\<le>max_wait. proc_poll p k = None" and "polls st = 0"
  shows "events (monitor E p a [0..<max_wait] st)
           = events st @ concat (replicate max_wait [Sleep 1, Poll])"
proof -
  have "\<forall>k<max_wait. proc_poll p k = None" using assms(1) by simp
  from monitor_timeout_events [OF refl assms(2) this, of E a]
  show ?thesis by simp
qed

text \<open>
  C4. An installer that has not exited at any of the 300 polls of the monitoring loop, nor
  at the poll after it, is classified as \<open>Timed out\<close>. The attempt is then handled as
  one with a non-zero exit code: one launch and one retry count are used, 300 rounds
  of a one-second sleep and a poll are made, a FAILED step and an error record are
  appended, and the decision to go on or to return \<open>False\<close>, the step statuses and
  the severity are those of the same attempt with an installer \<open>q\<close> that exits with a
  non-zero code.
\<close>

theorem timeout_is_failed_attempt:
  assumes "launch E a = Launched p" and "\<forall>k\<le>max_wait. proc_poll p k = None"
    and "launch E' a = Launched q" and "proc_poll q max_wait = Some rc" and "rc \<noteq> 0"
  shows "fst (attempt_body E m a st) = (if a < m then None else Some False)
         \<and> launches (snd (attempt_body E m a st)) = launches st + 1
         \<and> get_retry_count (error_tracker (snd (attempt_body E m a st))) ''Installer Execution''
             = get_retry_count (error_tracker st) ''Installer Execution'' + 1
         \<and> map step_view (steps (audit (snd (attempt_body E m a st))))
             = map step_view (steps (audit st))
               @ [(''Run installer - Attempt '' @ str_int a, ''RUNNING'', [], a),
                  (''Run installer - Attempt '' @ str_int a, ''FAILED'', ''Timed out'', 1)]
         \<and> map error_view (errors (error_tracker (snd (attempt_body E m a st))))
             = map error_view (errors (error_tracker st))
               @ [(''Installer Execution'', ''Attempt '' @ str_int a @ '' failed: Timed out'',
                   (if a = m then ''HIGH'' else ''MEDIUM''),
                   (if a < m then ''Retrying... ('' @ str_int a @ ''/'' @ str_int m @ '')''
                    else ''All retries exhausted''),
                   get_retry_count (error_tracker st) ''Installer Execution'' + 1)]
         \<and> events (snd (attempt_body E m a st))
             = events st @ [Popen] @ concat (replicate max_wait [Sleep 1, Poll]) @ [Poll]
               @ (if a < m then [Sleep 5] else [])
         \<and> fst (attempt_body E m a st) = fst (attempt_body E' m a st)
         \<and> map s_status (steps (audit (snd (attempt_body E m a st))))
             = map s_status (steps (audit (snd (attempt_body E' m a st))))
         \<and> map e_severity (errors (error_tracker (snd (attempt_body E m a st))))
             = map e_severity (errors (error_tracker (snd (attempt_body E' m a st))))
         \<and> launches (snd (attempt_body E m a st)) = launches (snd (attempt_body E' m a st))"
proof -
  from assms(2) have none: "proc_poll p max_wait = None" by simp
  then have ne: "proc_poll p max_wait \<noteq> Some 0" by simp
  from assms(4,5) have ne': "proc_poll q max_wait \<noteq> Some 0" by simp
  note b = attempt_body_failed [OF assms(1) ne, of m st]
  note b' = attempt_body_failed [OF assms(3) ne', of m st]
  note s = attempt_body_failed_statuses [OF assms(1) ne, of m st]
  note s' = attempt_body_failed_statuses [OF assms(3) ne', of m st]
  have ev: "events (snd (attempt_body E m a st))
             = events st @ [Popen] @ concat (replicate max_wait [Sleep 1, Poll]) @ [Poll]
               @ (if a < m then [Sleep 5] else [])"
    using assms(1) none
    by (simp add: attempt_body_def Let_def split_def final_poll
        timeout_run_events [OF assms(2)])
  have sev: "map e_severity xs = map (\<lambda>v. fst (snd (snd v))) (map error_view xs)" for xs
    by (simp add: error_view_def)
  have sv: "map e_severity (errors (error_tracker (snd (attempt_body E m a st))))
             = map e_severity (errors (error_tracker (snd (attempt_body E' m a st))))"
    unfolding sev b(4) b'(4) by simp
  show ?thesis
    using b(1,2,3,4,5) b'(1,2) s s' ev sv none
    by (simp add: attempt_name_def status_msg_of_def severity_of_def)
qed

theorem timeout_is_failed_attempt_witness:
  "launch (example_env (\<lambda>a. Launched Hangs)) 1 = Launched Hangs
   \<and> proc_poll Hangs max_wait = None
   \<and> launch (example_env (\<lambda>a. Launched (Exits 2 1))) 1 = Launched (Exits 2 1)
   \<and> proc_poll (Exits 2 1) max_wait = Some 1 \<and> (1::int) \<noteq> 0
   \<and> fst (attempt_body (example_env (\<lambda>a. Launched Hangs)) 3 1
            (initial_state (example_env (\<lambda>a. Launched Hangs)))) = None
   \<and> map s_status (steps (audit (snd (attempt_body (example_env (\<lambda>a. Launched Hangs)) 3 1
            (initial_state (example_env (\<lambda>a. Launched Hangs)))))))
       = map s_status (steps (audit (snd (attempt_body (example_env (\<lambda>a. Launched (Exits 2 1))) 3 1
            (initial_state (example_env (\<lambda>a. Launched Hangs)))))))
   \<and> map step_view (steps (audit (snd (attempt_body (example_env (\<lambda>a. Launched Hangs)) 3 1
            (initial_state (example_env (\<lambda>a. Launched Hangs)))))))
       = [(''Run installer - Attempt 1'', ''RUNNING'', [], 1),
          (''Run installer - Attempt 1'', ''FAILED'', ''Timed out'', 1)]"
proof -
  let ?E = "example_env (\<lambda>a. Launched Hangs)"
  let ?E' = "example_env (\<lambda>a. Launched (Exits 2 1))"
  have h1: "launch ?E 1 = Launched Hangs" by (simp add: example_env_def)
  have h2: "\<forall>k\<le>max_wait. proc_poll Hangs k = None" by simp
  have h3: "launch ?E' 1 = Launched (Exits 2 1)" by (simp add: example_env_def)
  have h4: "proc_poll (Exits 2 1) max_wait = Some 1" by (simp add: max_wait_def)
  have h5: "(1::int) \<noteq> 0" by simp
  note t = timeout_is_failed_attempt [OF h1 h2 h3 h4 h5, of 3 "initial_state ?E"]
  have s0: "steps (audit (initial_state ?E)) = []" by (simp add: initial_state_def)
  have s1: "str_int 1 = ''1''" by (simp add: str_int_def digit_char_def)
  from t have c1: "fst (attempt_body ?E 3 1 (initial_state ?E)) = None"
    by simp
  from t have c2: "map s_status (steps (audit (snd (attempt_body ?E 3 1 (initial_state ?E)))))
       = map s_status (steps (audit (snd (attempt_body ?E' 3 1 (initial_state ?E)))))"
    by simp
  from t have c3: "map step_view (steps (audit (snd (attempt_body ?E 3 1 (initial_state ?E)))))
       = [(''Run installer - Attempt 1'', ''RUNNING'', [], 1),
          (''Run installer - Attempt 1'', ''FAILED'', ''Timed out'', 1)]"
    by (simp add: s0 s1)
  have h2': "proc_poll Hangs max_wait = None" by simp
  show ?thesis
    by (intro conjI h1 h2' h3 h4 h5 c1 c2 c3)
qed

text \<open>
  C3. With \<open>max_attempts = 2\<close> and \<open>subprocess.Popen\<close> raising in both attempts, the
  function returns \<open>False\<close> without raising, records an error of severity MEDIUM and
  then one of severity HIGH, and sleeps 5 seconds between the attempts; but the branch
  for the exception appends no FAILED step: the only steps are the two RUNNING steps.
\<close>

theorem launch_exception_leaves_no_failed_step:
  "fst (run_installer_with_retries (example_env (\<lambda>a. LaunchError ''file not found'')) 2
          (initial_state (example_env (\<lambda>a. LaunchError ''file not found'')))) = False
   \<and> map s_status (steps (audit (snd (run_installer_with_retries
          (example_env (\<lambda>a. LaunchError ''file not found'')) 2
          (initial_state (example_env (\<lambda>a. LaunchError ''file not found'')))))))
       = [''RUNNING'', ''RUNNING'']
   \<and> map e_severity (errors (error_tracker (snd (run_installer_with_retries
          (example_env (\<lambda>a. LaunchError ''file not found'')) 2
          (initial_state (example_env (\<lambda>a. LaunchError ''file not found'')))))))
       = [''MEDIUM'', ''HIGH'']
   \<and> events (snd (run_installer_with_retries
          (example_env (\<lambda>a. LaunchError ''file not found'')) 2
          (initial_state (example_env (\<lambda>a. LaunchError ''file not found'')))))
       = [Popen, Sleep 5, Popen]"
proof -
  let ?E = "example_env (\<lambda>a. LaunchError ''file not found'')"
  let ?st0 = "initial_state ?E"
  let ?st1 = "snd (attempt_body ?E 2 1 ?st0)"
  let ?st2 = "snd (attempt_body ?E 2 2 ?st1)"
  have l: "launch ?E a = LaunchError ''file not found''" for a
    by (simp add: example_env_def)
  note b1 = attempt_body_launch_error [OF l [of 1], of 2 ?st0]
  note b2 = attempt_body_launch_error [OF l [of 2], of 2 ?st1]
  have f1: "fst (attempt_body ?E 2 1 ?st0) = None" using b1(1) by simp
  have f2: "fst (attempt_body ?E 2 2 ?st1) = Some False" using b2(1) by simp
  have "retry_loop ?E 2 [1..2] ?st0 = retry_loop ?E 2 [1 + 1..2] ?st1"
    by (rule retry_loop_continue [OF _ f1]) simp
  also have "\<dots> = retry_loop ?E 2 [2..2] ?st1" by simp
  also have "\<dots> = (False, ?st2)"
    by (rule retry_loop_return [OF _ f2]) simp
  finally have run: "run_installer_with_retries ?E 2 ?st0 = (False, ?st2)"
    by (simp add: run_installer_with_retries_def)
  have i0: "steps (audit ?st0) = []" "errors (error_tracker ?st0) = []" "events ?st0 = []"
    by (simp_all add: initial_state_def ErrorTracker_init_def)
  have st: "map s_status (steps (audit ?st2)) = [''RUNNING'', ''RUNNING'']"
    unfolding map_s_status b2(3) b1(3) by (simp add: i0)
  have sev: "map e_severity xs = map (\<lambda>v. fst (snd (snd v))) (map error_view xs)" for xs
    by (simp add: error_view_def)
  have er: "map e_severity (errors (error_tracker ?st2)) = [''MEDIUM'', ''HIGH'']"
    unfolding sev b2(4) b1(4) by (simp add: i0 severity_of_def)
  have ev: "events ?st2 = [Popen, Sleep 5, Popen]"
    unfolding b2(6) b1(6) by (simp add: i0)
  show ?thesis
    unfolding run using st er ev by simp
qed

section \<open>The installer validator\<close>

lemma record_event_frame [simp]:
  "audit (record_event ev st) = audit st"
  "error_tracker (record_event ev st) = error_tracker st"
  "events (record_event ev st) = events st @ [ev]"
  "polls (record_event ev st) = polls st"
  by (simp_all add: record_event_def)

lemma tracker_add_warning_frame [simp]:
  "audit (snd (tracker_add_warning E c w g st)) = audit st"
  "events (snd (tracker_add_warning E c w g st)) = events st"
  "polls (snd (tracker_add_warning E c w g st)) = polls st"
  "retries (error_tracker (snd (tracker_add_warning E c w g st))) = retries (error_tracker st)"
  "errors (error_tracker (snd (tracker_add_warning E c w g st))) = errors (error_tracker st)"
  "get_retry_count (error_tracker (snd (tracker_add_warning E c w g st))) c'
     = get_retry_count (error_tracker st) c'"
  "map warning_view (warnings (error_tracker (snd (tracker_add_warning E c w g st))))
     = map warning_view (warnings (error_tracker st)) @ [(c, w, g)]"
  by (simp_all add: prim_defs warning_view_def get_retry_count_def)

lemma verify_installer_result:
  "fst (verify_installer_comprehensive E st)
     = (case bat_file E of
          None \<Rightarrow> False
        | Some f \<Rightarrow> (case read_text f of Text content \<Rightarrow> True | _ \<Rightarrow> False))"
  by (simp add: verify_installer_comprehensive_def Let_def split_def
      split: option.split read_result.split)

lemma verify_installer_passing:
  assumes "bat_file E = Some f" and "read_text f = Text content"
  shows "errors (error_tracker (snd (snd (verify_installer_comprehensive E st))))
           = errors (error_tracker st)"
    and "map warning_view (warnings (error_tracker (snd (snd (verify_installer_comprehensive E st)))))
           = map warning_view (warnings (error_tracker st))
             @ (if st_size f < 100
                then [(''Installer Size'',
                       ''Installer file very small: '' @ str_nat (st_size f) @ '' bytes'',
                       ''File may be corrupted or incomplete'')]
                else [])
             @ (if length (filter (\<lambda>marker. py_in marker content) key_markers) < 2
                then [(''Installer Content'', ''Missing expected batch file markers'',
                       ''File may not be a valid installer'')]
                else [])"
    and "c_is_batch_file (fst (snd (verify_installer_comprehensive E st)))
           = (suffix_lower f = ''.bat'')"
    and "c_size_bytes (fst (snd (verify_installer_comprehensive E st))) = st_size f"
  using assms
  by (simp_all add: verify_installer_comprehensive_def Let_def split_def)

text \<open>
  C8. \<open>verify_installer_comprehensive\<close> returns \<open>True\<close> exactly when the installer file
  exists and \<open>read_text\<close> decodes it. When both hold, whatever the size, the extension
  and the number of markers found, no error is recorded: a size below 100 bytes and
  fewer than 2 markers each add one warning, and the extension only sets the fact
  \<open>is_batch_file\<close>.
\<close>

theorem installer_validator_verdict:
  "(fst (verify_installer_comprehensive E st)
      \<longleftrightarrow> (\<exists>f content. bat_file E = Some f \<and> read_text f = Text content))
   \<and> (\<forall>f content. bat_file E = Some f \<and> read_text f = Text content \<longrightarrow>
         errors (error_tracker (snd (snd (verify_installer_comprehensive E st))))
           = errors (error_tracker st)
         \<and> map warning_view
               (warnings (error_tracker (snd (snd (verify_installer_comprehensive E st)))))
             = map warning_view (warnings (error_tracker st))
               @ (if st_size f < 100
                  then [(''Installer Size'',
                         ''Installer file very small: '' @ str_nat (st_size f) @ '' bytes'',
                         ''File may be corrupted or incomplete'')]
                  else [])
               @ (if length (filter (\<lambda>marker. py_in marker content) key_markers) < 2
                  then [(''Installer Content'', ''Missing expected batch file markers'',
                         ''File may not be a valid installer'')]
                  else [])
         \<and> c_is_batch_file (fst (snd (verify_installer_comprehensive E st)))
             = (suffix_lower f = ''.bat''))"
proof (intro conjI allI impI)
  show "fst (verify_installer_comprehensive E st)
          \<longleftrightarrow> (\<exists>f content. bat_file E = Some f \<and> read_text f = Text content)"
    unfolding verify_installer_result
    by (auto split: option.split read_result.split)
next
  fix f content
  assume a: "bat_file E = Some f \<and> read_text f = Text content"
  then have b: "bat_file E = Some f" and c: "read_text f = Text content" by simp_all
  show "errors (error_tracker (snd (snd (verify_installer_comprehensive E st))))
           = errors (error_tracker st)"
    by (rule verify_installer_passing(1) [OF b c])
  show "map warning_view
               (warnings (error_tracker (snd (snd (verify_installer_comprehensive E st)))))
             = map warning_view (warnings (error_tracker st))
               @ (if st_size f < 100
                  then [(''Installer Size'',
                         ''Installer file very small: '' @ str_nat (st_size f) @ '' bytes'',
                         ''File may be corrupted or incomplete'')]
                  else [])
               @ (if length (filter (\<lambda>marker. py_in marker content) key_markers) < 2
                  then [(''Installer Content'', ''Missing expected batch file markers'',
                         ''File may not be a valid installer'')]
                  else [])"
    by (rule verify_installer_passing(2) [OF b c])
  show "c_is_batch_file (fst (snd (verify_installer_comprehensive E st)))
             = (suffix_lower f = ''.bat'')"
    by (rule verify_installer_passing(3) [OF b c])
qed

theorem installer_validator_verdict_witness:
  "bat_file env_tiny_installer = Some tiny_text_file \<and> read_text tiny_text_file = Text []
   \<and> fst (verify_installer_comprehensive env_tiny_installer (initial_state env_tiny_installer))
   \<and> errors (error_tracker (snd (snd (verify_installer_comprehensive env_tiny_installer
          (initial_state env_tiny_installer))))) = []
   \<and> map warning_view (warnings (error_tracker (snd (snd (verify_installer_comprehensive
          env_tiny_installer (initial_state env_tiny_installer))))))
       = [(''Installer Size'', ''Installer file very small: 0 bytes'',
           ''File may be corrupted or incomplete''),
          (''Installer Content'', ''Missing expected batch file markers'',
           ''File may not be a valid installer'')]
   \<and> \<not> c_is_batch_file (fst (snd (verify_installer_comprehensive env_tiny_installer
          (initial_state env_tiny_installer))))"
proof -
  let ?E = env_tiny_installer
  let ?r = "verify_installer_comprehensive ?E (initial_state ?E)"
  have h1: "bat_file ?E = Some tiny_text_file"
    by (simp add: env_tiny_installer_def)
  have h2: "read_text tiny_text_file = Text []"
    by (simp add: tiny_text_file_def)
  note t = installer_validator_verdict [of ?E "initial_state ?E"]
  have ex: "\<exists>f content. bat_file ?E = Some f \<and> read_text f = Text content"
    using h1 h2 by (intro exI conjI)
  from t [THEN conjunct1] ex have c1: "fst ?r" by (rule iffD2)
  note p = t [THEN conjunct2, rule_format, OF conjI [OF h1 h2]]
  have i0: "errors (error_tracker (initial_state ?E)) = []"
    "warnings (error_tracker (initial_state ?E)) = []"
    by (simp_all add: initial_state_def ErrorTracker_init_def)
  have m: "filter (\<lambda>marker. marker = []) key_markers = []"
    by (simp add: key_markers_def)
  have z: "st_size tiny_text_file = 0" "suffix_lower tiny_text_file = ''.txt''"
    by (simp_all add: tiny_text_file_def)
  from p have c2: "errors (error_tracker (snd (snd ?r))) = []"
    by (simp add: i0)
  from p have c3: "map warning_view (warnings (error_tracker (snd (snd ?r))))
       = [(''Installer Size'', ''Installer file very small: 0 bytes'',
           ''File may be corrupted or incomplete''),
          (''Installer Content'', ''Missing expected batch file markers'',
           ''File may not be a valid installer'')]"
    by (simp add: i0 m z digit_char_def)
  from p have c4: "\<not> c_is_batch_file (fst (snd ?r))"
    by (simp add: z)
  show ?thesis
    by (intro conjI h1 h2 c1 c2 c3 c4)
qed

section \<open>The installation verifier\<close>

lemma check_expected_files_effect:
  "files_found (fst (check_expected_files E T ps v st)) = files_found v @ found_entries T ps
   \<and> files_missing (fst (check_expected_files E T ps v st))
       = files_missing v @ filter (\<lambda>p. lookup T p = None) ps
   \<and> files_partial (fst (check_expected_files E T ps v st))
       = files_partial v @ filter (\<lambda>p. lookup T p = Some 0) ps
   \<and> total_expected (fst (check_expected_files E T ps v st)) = total_expected v
   \<and> install_size_bytes (fst (check_expected_files E T ps v st)) = install_size_bytes v
   \<and> audit (snd (check_expected_files E T ps v st)) = audit st
   \<and> errors (error_tracker (snd (check_expected_files E T ps v st))) = errors (error_tracker st)
   \<and> retries (error_tracker (snd (check_expected_files E T ps v st))) = retries (error_tracker st)
   \<and> map warning_view (warnings (error_tracker (snd (check_expected_files E T ps v st))))
       = map warning_view (warnings (error_tracker st))
         @ map empty_file_warning (filter (\<lambda>p. lookup T p = Some 0) ps)"
proof (induction ps arbitrary: v st)
  case Nil
  show ?case by (simp add: found_entries_def)
next
  case (Cons p ps)
  show ?case
  proof (cases "lookup T p")
    case None
    then show ?thesis
      by (simp add: Let_def Cons.IH found_entries_def)
  next
    case (Some n)
    show ?thesis
    proof (cases "n = 0")
      case True
      with Some show ?thesis
        by (simp add: Let_def Cons.IH found_entries_def empty_file_warning_def)
    next
      case False
      with Some show ?thesis
        by (simp add: Let_def Cons.IH found_entries_def)
    qed
  qed
qed

lemma length_found_entries:
  "length (found_entries T ps) + length (filter (\<lambda>p. lookup T p = None) ps) = length ps"
  by (induction ps) (simp_all add: found_entries_def split: option.split)

lemma map_e_severity: "map e_severity xs = map (\<lambda>v. fst (snd (snd v))) (map error_view xs)"
  by (simp add: error_view_def)

lemma verify_installation_of_tree:
  assumes "install_tree E = Some T"
  shows "fst (verify_installation_of expected E st)
           = \<lparr> files_found = found_entries T expected,
               files_missing = filter (\<lambda>p. lookup T p = None) expected,
               files_partial = filter (\<lambda>p. lookup T p = Some 0) expected,
               total_expected = length expected,
               install_size_bytes = sum_list (rglob_file_sizes T) \<rparr>"
proof -
  let ?v0 = "\<lparr> files_found = [], files_missing = [], files_partial = [],
               total_expected = length expected,
               install_size_bytes = sum_list (rglob_file_sizes T) \<rparr>"
  let ?st3 = "record_event (PathRglob (INSTALL_DIR E))
                (record_event (PathExists (INSTALL_DIR E))
                   (add_step E ''Comprehensive installation verification'' ''RUNNING'' [] 1 st))"
  note c = check_expected_files_effect [of E T expected ?v0 ?st3]
  have "fst (verify_installation_of expected E st) = fst (check_expected_files E T expected ?v0 ?st3)"
    using assms by (simp add: verify_installation_of_def Let_def split_def)
  moreover have "fst (check_expected_files E T expected ?v0 ?st3)
           = \<lparr> files_found = found_entries T expected,
               files_missing = filter (\<lambda>p. lookup T p = None) expected,
               files_partial = filter (\<lambda>p. lookup T p = Some 0) expected,
               total_expected = length expected,
               install_size_bytes = sum_list (rglob_file_sizes T) \<rparr>"
    using c by (cases "fst (check_expected_files E T expected ?v0 ?st3)") simp
  ultimately show ?thesis by simp
qed

lemma verify_installation_of_ledger:
  assumes "install_tree E = Some T"
  shows "map error_view (errors (error_tracker (snd (verify_installation_of expected E st))))
           = map error_view (errors (error_tracker st))
             @ (if filter (\<lambda>p. lookup T p = None) expected \<noteq> []
                then [(''File Verification'',
                       str_nat (length (filter (\<lambda>p. lookup T p = None) expected))
                         @ '' files missing, ''
                         @ str_nat (length (filter (\<lambda>p. lookup T p = Some 0) expected))
                         @ '' files empty'',
                       (if length (filter (\<lambda>p. lookup T p = None) expected) > 5
                        then ''HIGH'' else ''MEDIUM''),
                       ''Check network connection and GitHub availability'',
                       get_retry_count (error_tracker st) ''File Verification'')]
                else [])
             @ (if found_entries T expected = []
                then [(''Installation'', ''No expected files were installed'', ''CRITICAL'',
                       ''The installer may be downloading to wrong location or failing completely'',
                       get_retry_count (error_tracker st) ''Installation'')]
                else [])"
    and "map warning_view (warnings (error_tracker (snd (verify_installation_of expected E st))))
           = map warning_view (warnings (error_tracker st))
             @ map empty_file_warning (filter (\<lambda>p. lookup T p = Some 0) expected)"
proof -
  let ?v0 = "\<lparr> files_found = [], files_missing = [], files_partial = [],
               total_expected = length expected,
               install_size_bytes = sum_list (rglob_file_sizes T) \<rparr>"
  let ?st3 = "record_event (PathRglob (INSTALL_DIR E))
                (record_event (PathExists (INSTALL_DIR E))
                   (add_step E ''Comprehensive installation verification'' ''RUNNING'' [] 1 st))"
  let ?c = "check_expected_files E T expected ?v0 ?st3"
  note c = check_expected_files_effect [of E T expected ?v0 ?st3]
  have f: "files_found (fst ?c) = found_entries T expected"
    and m: "files_missing (fst ?c) = filter (\<lambda>p. lookup T p = None) expected"
    and p: "files_partial (fst ?c) = filter (\<lambda>p. lookup T p = Some 0) expected"
    and e: "errors (error_tracker (snd ?c)) = errors (error_tracker st)"
    and r: "retries (error_tracker (snd ?c)) = retries (error_tracker st)"
    and w: "map warning_view (warnings (error_tracker (snd ?c)))
              = map warning_view (warnings (error_tracker st))
                @ map empty_file_warning (filter (\<lambda>p. lookup T p = Some 0) expected)"
    using c by simp_all
  have g: "get_retry_count (error_tracker (snd ?c)) k = get_retry_count (error_tracker st) k" for k
    using r by (rule get_retry_count_cong)
  show "map error_view (errors (error_tracker (snd (verify_installation_of expected E st))))
           = map error_view (errors (error_tracker st))
             @ (if filter (\<lambda>p. lookup T p = None) expected \<noteq> []
                then [(''File Verification'',
                       str_nat (length (filter (\<lambda>p. lookup T p = None) expected))
                         @ '' files missing, ''
                         @ str_nat (length (filter (\<lambda>p. lookup T p = Some 0) expected))
                         @ '' files empty'',
                       (if length (filter (\<lambda>p. lookup T p = None) expected) > 5
                        then ''HIGH'' else ''MEDIUM''),
                       ''Check network connection and GitHub availability'',
                       get_retry_count (error_tracker st) ''File Verification'')]
                else [])
             @ (if found_entries T expected = []
                then [(''Installation'', ''No expected files were installed'', ''CRITICAL'',
                       ''The installer may be downloading to wrong location or failing completely'',
                       get_retry_count (error_tracker st) ''Installation'')]
                else [])"
    using assms
    by (simp add: verify_installation_of_def Let_def split_def f m p e g del: str_nat.simps)
  show "map warning_view (warnings (error_tracker (snd (verify_installation_of expected E st))))
           = map warning_view (warnings (error_tracker st))
             @ map empty_file_warning (filter (\<lambda>p. lookup T p = Some 0) expected)"
    using assms
    by (simp add: verify_installation_of_def Let_def split_def w del: str_nat.simps)
qed

text \<open>
  C6. When the installation directory exists, every expected file that exists is listed
  in \<open>files_found\<close>, also when its size is 0 (it is then listed in \<open>files_partial\<close>
  too and one ``Empty file'' warning is recorded for it), and the others in
  \<open>files_missing\<close>. If files are missing, exactly one \<open>File Verification\<close> error is
  recorded, of severity HIGH when more than 5 are missing and MEDIUM otherwise; if no
  file was found, a CRITICAL \<open>Installation\<close> error is recorded after it; no other error
  is recorded.
\<close>

theorem installation_classification:
  assumes "install_tree E = Some T"
  shows "files_found (fst (verify_installation_of expected E st)) = found_entries T expected
         \<and> files_missing (fst (verify_installation_of expected E st))
             = filter (\<lambda>p. lookup T p = None) expected
         \<and> files_partial (fst (verify_installation_of expected E st))
             = filter (\<lambda>p. lookup T p = Some 0) expected
         \<and> length (files_found (fst (verify_installation_of expected E st)))
             + length (files_missing (fst (verify_installation_of expected E st)))
             = length expected
         \<and> map error_view (errors (error_tracker (snd (verify_installation_of expected E st))))
             = map error_view (errors (error_tracker st))
               @ (if files_missing (fst (verify_installation_of expected E st)) \<noteq> []
                  then [(''File Verification'',
                         str_nat (length (files_missing (fst (verify_installation_of expected E st))))
                           @ '' files missing, ''
                           @ str_nat (length (files_partial (fst (verify_installation_of expected E st))))
                           @ '' files empty'',
                         (if length (files_missing (fst (verify_installation_of expected E st))) > 5
                          then ''HIGH'' else ''MEDIUM''),
                         ''Check network connection and GitHub availability'',
                         get_retry_count (error_tracker st) ''File Verification'')]
                  else [])
               @ (if files_found (fst (verify_installation_of expected E st)) = []
                  then [(''Installation'', ''No expected files were installed'', ''CRITICAL'',
                         ''The installer may be downloading to wrong location or failing completely'',
                         get_retry_count (error_tracker st) ''Installation'')]
                  else [])
         \<and> map warning_view (warnings (error_tracker (snd (verify_installation_of expected E st))))
             = map warning_view (warnings (error_tracker st))
               @ map empty_file_warning (files_partial (fst (verify_installation_of expected E st)))"
  unfolding verify_installation_of_tree [OF assms] verify_installation_of_ledger [OF assms]
  by (simp add: length_found_entries del: str_nat.simps)

theorem installation_classification_witness:
  "install_tree env_partial_install = Some partial_tree
   \<and> map f_path (files_found (fst (verify_installation_comprehensive env_partial_install
          (initial_state env_partial_install)))) = [''main.py'', ''requirements.txt'']
   \<and> length (files_missing (fst (verify_installation_comprehensive env_partial_install
          (initial_state env_partial_install)))) = 10
   \<and> files_partial (fst (verify_installation_comprehensive env_partial_install
          (initial_state env_partial_install))) = [''requirements.txt'']
   \<and> map error_view (errors (error_tracker (snd (verify_installation_comprehensive
          env_partial_install (initial_state env_partial_install)))))
       = [(''File Verification'', ''10 files missing, 1 files empty'', ''HIGH'',
           ''Check network connection and GitHub availability'', 0)]
   \<and> map warning_view (warnings (error_tracker (snd (verify_installation_comprehensive
          env_partial_install (initial_state env_partial_install)))))
       = [(''File Content'', ''Empty file: requirements.txt'',
           ''File was created but contains no data'')]"
proof -
  let ?E = env_partial_install
  let ?r = "verify_installation_of EXPECTED_FILES ?E (initial_state ?E)"
  have h: "install_tree ?E = Some partial_tree"
    by (simp add: env_partial_install_def)
  note t = installation_classification [OF h, of EXPECTED_FILES "initial_state ?E"]
  have fe: "found_entries partial_tree EXPECTED_FILES
              = [\<lparr>f_path = ''main.py'', f_size_bytes = 10, f_is_empty = False\<rparr>,
                 \<lparr>f_path = ''requirements.txt'', f_size_bytes = 0, f_is_empty = True\<rparr>]"
    by (simp add: found_entries_def partial_tree_def EXPECTED_FILES_def)
  have fm: "filter (\<lambda>p. lookup partial_tree p = None) EXPECTED_FILES
              = [''gemini_api.py'', ''imdb_scraper.py'', ''build_installer.py'',
                 ''weebly_player_full.html'', ''player/player-logic.js'', ''themes/dark.json'',
                 ''themes/neon.json'', ''electron_app/main.js'', ''electron_app/preload.js'',
                 ''electron_app/package.json'']"
    by (simp add: partial_tree_def EXPECTED_FILES_def)
  have fp: "filter (\<lambda>p. lookup partial_tree p = Some 0) EXPECTED_FILES = [''requirements.txt'']"
    by (simp add: partial_tree_def EXPECTED_FILES_def)
  have i0: "errors (error_tracker (initial_state ?E)) = []"
    "warnings (error_tracker (initial_state ?E)) = []"
    "get_retry_count (error_tracker (initial_state ?E)) c = 0" for c
    by (simp_all add: initial_state_def ErrorTracker_init_def get_retry_count_def)
  have s10: "str_nat 10 = ''10''" "str_nat 1 = ''1''" "str_nat (Suc 0) = ''1''"
    by (simp_all add: digit_char_def)
  from t have f: "files_found (fst ?r) = found_entries partial_tree EXPECTED_FILES"
    and m: "files_missing (fst ?r) = filter (\<lambda>p. lookup partial_tree p = None) EXPECTED_FILES"
    and p: "files_partial (fst ?r) = filter (\<lambda>p. lookup partial_tree p = Some 0) EXPECTED_FILES"
    by simp_all
  have c1: "map f_path (files_found (fst ?r)) = [''main.py'', ''requirements.txt'']"
    unfolding f fe by simp
  have c2: "length (files_missing (fst ?r)) = 10"
    unfolding m fm by simp
  have c3: "files_partial (fst ?r) = [''requirements.txt'']"
    unfolding p fp by simp
  from t have "map error_view (errors (error_tracker (snd ?r)))
       = map error_view (errors (error_tracker (initial_state ?E)))
               @ (if files_missing (fst ?r) \<noteq> []
                  then [(''File Verification'',
                         str_nat (length (files_missing (fst ?r)))
                           @ '' files missing, ''
                           @ str_nat (length (files_partial (fst ?r)))
                           @ '' files empty'',
                         (if length (files_missing (fst ?r)) > 5
                          then ''HIGH'' else ''MEDIUM''),
                         ''Check network connection and GitHub availability'',
                         get_retry_count (error_tracker (initial_state ?E)) ''File Verification'')]
                  else [])
               @ (if files_found (fst ?r) = []
                  then [(''Installation'', ''No expected files were installed'', ''CRITICAL'',
                         ''The installer may be downloading to wrong location or failing completely'',
                         get_retry_count (error_tracker (initial_state ?E)) ''Installation'')]
                  else [])"
    by (elim conjE)
  then have c4: "map error_view (errors (error_tracker (snd ?r)))
       = [(''File Verification'', ''10 files missing, 1 files empty'', ''HIGH'',
           ''Check network connection and GitHub availability'', 0)]"
    unfolding c2 c3 f fe i0 s10 using c2 by (auto simp add: s10 simp del: str_nat.simps)
  from t have "map warning_view (warnings (error_tracker (snd ?r)))
       = map warning_view (warnings (error_tracker (initial_state ?E)))
         @ map empty_file_warning (files_partial (fst ?r))"
    by (elim conjE)
  then have c5: "map warning_view (warnings (error_tracker (snd ?r)))
       = [(''File Content'', ''Empty file: requirements.txt'',
           ''File was created but contains no data'')]"
    unfolding c3 i0 by (simp add: empty_file_warning_def)
  show ?thesis
    unfolding verify_installation_comprehensive_def
    by (intro conjI h c1 c2 c3 c4 c5)
qed

text \<open>
  C5. When the installation directory does not exist, the verifier records one CRITICAL
  error and makes no call on any expected file (the only file-system call is the
  existence test of the directory); \<open>files_found\<close> is empty; but \<open>files_missing\<close> is
  empty as well, with \<open>total_expected = 12\<close>: the early return leaves the expected
  paths out of the missing list.
\<close>

theorem missing_directory_reports_nothing_missing:
  "files_found (fst (verify_installation_comprehensive (example_env (\<lambda>a. Launched Hangs))
        (initial_state (example_env (\<lambda>a. Launched Hangs))))) = []
   \<and> files_missing (fst (verify_installation_comprehensive (example_env (\<lambda>a. Launched Hangs))
        (initial_state (example_env (\<lambda>a. Launched Hangs))))) = []
   \<and> files_missing (fst (verify_installation_comprehensive (example_env (\<lambda>a. Launched Hangs))
        (initial_state (example_env (\<lambda>a. Launched Hangs))))) \<noteq> EXPECTED_FILES
   \<and> total_expected (fst (verify_installation_comprehensive (example_env (\<lambda>a. Launched Hangs))
        (initial_state (example_env (\<lambda>a. Launched Hangs))))) = 12
   \<and> map e_severity (errors (error_tracker (snd (verify_installation_comprehensive
        (example_env (\<lambda>a. Launched Hangs))
        (initial_state (example_env (\<lambda>a. Launched Hangs)))))))
       = [''CRITICAL'']
   \<and> events (snd (verify_installation_comprehensive (example_env (\<lambda>a. Launched Hangs))
        (initial_state (example_env (\<lambda>a. Launched Hangs)))))
       = [PathExists (INSTALL_DIR (example_env (\<lambda>a. Launched Hangs)))]"
proof -
  let ?E = "example_env (\<lambda>a. Launched Hangs)"
  have n: "install_tree ?E = None" by (simp add: example_env_def)
  have i0: "errors (error_tracker (initial_state ?E)) = []" "events (initial_state ?E) = []"
    by (simp_all add: initial_state_def ErrorTracker_init_def)
  have l: "length EXPECTED_FILES = 12" "EXPECTED_FILES \<noteq> []"
    by (simp_all add: EXPECTED_FILES_def)
  have v: "fst (verify_installation_comprehensive ?E (initial_state ?E))
             = \<lparr> files_found = [], files_missing = [], files_partial = [],
                 total_expected = 12, install_size_bytes = 0 \<rparr>"
    using n l
    by (simp add: verify_installation_comprehensive_def verify_installation_of_def
        Let_def split_def)
  have e: "map e_severity (errors (error_tracker (snd
             (verify_installation_comprehensive ?E (initial_state ?E))))) = [''CRITICAL'']"
    unfolding map_e_severity using n
    by (simp add: verify_installation_comprehensive_def verify_installation_of_def
        Let_def split_def i0)
  have ev: "events (snd (verify_installation_comprehensive ?E (initial_state ?E)))
              = [PathExists (INSTALL_DIR ?E)]"
    using n
    by (simp add: verify_installation_comprehensive_def verify_installation_of_def
        Let_def split_def i0)
  show ?thesis
    unfolding v using e ev l by simp
qed

section \<open>The report and the overall verdict\<close>

lemma generate_report_text:
  "fst (generate_comprehensive_report E st)
     = report_text E (errors (error_tracker st)) (warnings (error_tracker st))
         (steps (audit st)) (start_time (audit st)) (wall E (clock_reads st))
         (success (audit st))"
  by (simp add: generate_comprehensive_report_def now_def Let_def split_def
      split: option.split)

lemma generate_report_frame [simp]:
  "error_tracker (snd (generate_comprehensive_report E st)) = error_tracker st"
  "steps (audit (snd (generate_comprehensive_report E st))) = steps (audit st)"
  "success (audit (snd (generate_comprehensive_report E st))) = success (audit st)"
  "start_time (audit (snd (generate_comprehensive_report E st))) = start_time (audit st)"
  "end_time (audit (snd (generate_comprehensive_report E st))) = Some (wall E (clock_reads st))"
  "clock_reads (snd (generate_comprehensive_report E st)) = clock_reads st + 2"
  by (simp_all add: generate_comprehensive_report_def now_def safe_log_def record_event_def
      Let_def split_def split: option.split)

lemma report_text_end_time:
  assumes "report_text E es ws stps start e1 succ = report_text E es ws stps start e2 succ"
    and "length e1 = length e2"
  shows "e1 = e2"
  using assms by (simp add: report_text_def)

text \<open>
  C9. The report text is determined by the errors and warnings of the tracker, the
  steps, the start time and the success flag of the audit, together with the reading of
  the clock that \<open>generate_comprehensive_report\<close> takes as the end time: two calls in
  the same environment that agree on all of these give the same text.
\<close>

theorem report_depends_on_inputs:
  assumes "errors (error_tracker st1) = errors (error_tracker st2)"
    and "warnings (error_tracker st1) = warnings (error_tracker st2)"
    and "steps (audit st1) = steps (audit st2)"
    and "start_time (audit st1) = start_time (audit st2)"
    and "success (audit st1) = success (audit st2)"
    and "wall E (clock_reads st1) = wall E (clock_reads st2)"
  shows "fst (generate_comprehensive_report E st1) = fst (generate_comprehensive_report E st2)"
  unfolding generate_report_text using assms by simp

theorem report_depends_on_inputs_witness:
  "errors (error_tracker (initial_state (example_env (\<lambda>a. Launched Hangs))))
     = errors (error_tracker ((initial_state (example_env (\<lambda>a. Launched Hangs)))\<lparr>polls := 7\<rparr>))
   \<and> warnings (error_tracker (initial_state (example_env (\<lambda>a. Launched Hangs))))
     = warnings (error_tracker ((initial_state (example_env (\<lambda>a. Launched Hangs)))\<lparr>polls := 7\<rparr>))
   \<and> steps (audit (initial_state (example_env (\<lambda>a. Launched Hangs))))
     = steps (audit ((initial_state (example_env (\<lambda>a. Launched Hangs)))\<lparr>polls := 7\<rparr>))
   \<and> start_time (audit (initial_state (example_env (\<lambda>a. Launched Hangs))))
     = start_time (audit ((initial_state (example_env (\<lambda>a. Launched Hangs)))\<lparr>polls := 7\<rparr>))
   \<and> success (audit (initial_state (example_env (\<lambda>a. Launched Hangs))))
     = success (audit ((initial_state (example_env (\<lambda>a. Launched Hangs)))\<lparr>polls := 7\<rparr>))
   \<and> wall (example_env (\<lambda>a. Launched Hangs))
         (clock_reads (initial_state (example_env (\<lambda>a. Launched Hangs))))
     = wall (example_env (\<lambda>a. Launched Hangs))
         (clock_reads ((initial_state (example_env (\<lambda>a. Launched Hangs)))\<lparr>polls := 7\<rparr>))
   \<and> fst (generate_comprehensive_report (example_env (\<lambda>a. Launched Hangs))
           (initial_state (example_env (\<lambda>a. Launched Hangs))))
     = fst (generate_comprehensive_report (example_env (\<lambda>a. Launched Hangs))
           ((initial_state (example_env (\<lambda>a. Launched Hangs)))\<lparr>polls := 7\<rparr>))"
proof -
  let ?E = "example_env (\<lambda>a. Launched Hangs)"
  let ?s1 = "initial_state ?E"
  let ?s2 = "(initial_state ?E)\<lparr>polls := 7\<rparr>"
  have h1: "errors (error_tracker ?s1) = errors (error_tracker ?s2)" by simp
  have h2: "warnings (error_tracker ?s1) = warnings (error_tracker ?s2)" by simp
  have h3: "steps (audit ?s1) = steps (audit ?s2)" by simp
  have h4: "start_time (audit ?s1) = start_time (audit ?s2)" by simp
  have h5: "success (audit ?s1) = success (audit ?s2)" by simp
  have h6: "wall ?E (clock_reads ?s1) = wall ?E (clock_reads ?s2)" by simp
  note t = report_depends_on_inputs [OF h1 h2 h3 h4 h5 h6]
  show ?thesis
    by (intro conjI h1 h2 h3 h4 h5 h6 t)
qed

text \<open>
  C9 does not hold with the errors, warnings and steps alone: a second call right after
  the first one finds the same errors, warnings and steps, and gives another text,
  since the end time read from the clock has moved on.
\<close>

theorem second_report_differs:
  "errors (error_tracker (snd (generate_comprehensive_report (example_env (\<lambda>a. Launched Hangs))
          (initial_state (example_env (\<lambda>a. Launched Hangs))))))
     = errors (error_tracker (initial_state (example_env (\<lambda>a. Launched Hangs))))
   \<and> warnings (error_tracker (snd (generate_comprehensive_report
          (example_env (\<lambda>a. Launched Hangs))
          (initial_state (example_env (\<lambda>a. Launched Hangs))))))
     = warnings (error_tracker (initial_state (example_env (\<lambda>a. Launched Hangs))))
   \<and> steps (audit (snd (generate_comprehensive_report (example_env (\<lambda>a. Launched Hangs))
          (initial_state (example_env (\<lambda>a. Launched Hangs))))))
     = steps (audit (initial_state (example_env (\<lambda>a. Launched Hangs))))
   \<and> fst (generate_comprehensive_report (example_env (\<lambda>a. Launched Hangs))
          (snd (generate_comprehensive_report (example_env (\<lambda>a. Launched Hangs))
                 (initial_state (example_env (\<lambda>a. Launched Hangs))))))
     \<noteq> fst (generate_comprehensive_report (example_env (\<lambda>a. Launched Hangs))
          (initial_state (example_env (\<lambda>a. Launched Hangs))))"
proof -
  let ?E = "example_env (\<lambda>a. Launched Hangs)"
  let ?s0 = "initial_state ?E"
  let ?s1 = "snd (generate_comprehensive_report ?E ?s0)"
  have c0: "clock_reads ?s0 = 1" by (simp add: initial_state_def)
  have c1: "clock_reads ?s1 = 3" by (simp add: c0)
  have wE: "wall ?E k = ''2025-01-01T00:00:'' @ str_nat (10 + k)" for k
    by (simp add: example_env_def)
  have n: "str_nat (10 + 1) = ''11''" "str_nat (10 + 3) = ''13''"
    by (simp_all add: digit_char_def)
  have w0: "wall ?E (clock_reads ?s0) = ''2025-01-01T00:00:11''"
    unfolding c0 wE n by simp
  have w1: "wall ?E (clock_reads ?s1) = ''2025-01-01T00:00:13''"
    unfolding c1 wE n by simp
  have "fst (generate_comprehensive_report ?E ?s1) \<noteq> fst (generate_comprehensive_report ?E ?s0)"
  proof
    assume "fst (generate_comprehensive_report ?E ?s1) = fst (generate_comprehensive_report ?E ?s0)"
    then have "report_text ?E (errors (error_tracker ?s0)) (warnings (error_tracker ?s0))
                 (steps (audit ?s0)) (start_time (audit ?s0)) ''2025-01-01T00:00:13''
                 (success (audit ?s0))
               = report_text ?E (errors (error_tracker ?s0)) (warnings (error_tracker ?s0))
                 (steps (audit ?s0)) (start_time (audit ?s0)) ''2025-01-01T00:00:11''
                 (success (audit ?s0))"
      unfolding generate_report_text w0 w1 generate_report_frame(1,2,3,4) .
    then have "''2025-01-01T00:00:13'' = ''2025-01-01T00:00:11''"
      by (rule report_text_end_time) simp
    then show False by simp
  qed
  then show ?thesis by simp
qed

text \<open>
  C7. When \<open>main\<close> gets past the verification of the installer and the confirmation of
  the user, it returns the outcome of \<open>run_installer_with_retries\<close> and the result of
  \<open>verify_installation_comprehensive\<close>, and the success flag of the audit it leaves is
  true exactly when that outcome is true and the list of missing files is empty.
\<close>

theorem overall_success_is_conjunction:
  assumes "bat_file E = Some f" and "read_text f = Text content"
    and "choice E = ''y'' \<or> choice E = ''yes''"
  shows "\<exists>report.
           fst (main E st)
             = Some (fst (run_installer_with_retries E 3 (state_before_install E st)),
                     fst (verify_installation_comprehensive E
                            (snd (run_installer_with_retries E 3 (state_before_install E st)))),
                     report)
           \<and> success (audit (snd (main E st)))
               = (fst (run_installer_with_retries E 3 (state_before_install E st))
                  \<and> length (files_missing
                       (fst (verify_installation_comprehensive E
                               (snd (run_installer_with_retries E 3
                                  (state_before_install E st)))))) = 0)"
proof -
  have ok: "fst (verify_installer_comprehensive E s)" for s
    unfolding verify_installer_result using assms(1,2) by simp
  have ch: "choice E \<in> set [''y'', ''yes'']"
    using assms(3) by auto
  show ?thesis
    using ok ch
    by (simp add: main_def state_before_install_def Let_def split_def del: set_simps)
qed

theorem overall_success_is_conjunction_witness:
  "bat_file env_tiny_installer = Some tiny_text_file \<and> read_text tiny_text_file = Text []
   \<and> (choice env_tiny_installer = ''y'' \<or> choice env_tiny_installer = ''yes'')
   \<and> (\<exists>report.
           fst (main env_tiny_installer (initial_state env_tiny_installer))
             = Some (fst (run_installer_with_retries env_tiny_installer 3
                            (state_before_install env_tiny_installer
                               (initial_state env_tiny_installer))),
                     fst (verify_installation_comprehensive env_tiny_installer
                            (snd (run_installer_with_retries env_tiny_installer 3
                               (state_before_install env_tiny_installer
                                  (initial_state env_tiny_installer))))),
                     report)
           \<and> success (audit (snd (main env_tiny_installer (initial_state env_tiny_installer))))
               = (fst (run_installer_with_retries env_tiny_installer 3
                         (state_before_install env_tiny_installer
                            (initial_state env_tiny_installer)))
                  \<and> length (files_missing
                       (fst (verify_installation_comprehensive env_tiny_installer
                               (snd (run_installer_with_retries env_tiny_installer 3
                                  (state_before_install env_tiny_installer
                                     (initial_state env_tiny_installer))))))) = 0))"
proof -
  have h1: "bat_file env_tiny_installer = Some tiny_text_file"
    by (simp add: env_tiny_installer_def)
  have h2: "read_text tiny_text_file = Text []"
    by (simp add: tiny_text_file_def)
  have h3: "choice env_tiny_installer = ''y'' \<or> choice env_tiny_installer = ''yes''"
    by (simp add: env_tiny_installer_def example_env_def)
  note t = overall_success_is_conjunction [OF h1 h2 h3, of "initial_state env_tiny_installer"]
  show ?thesis
    by (intro conjI h1 h2 h3 t)
qed

section \<open>A run without installation directory\<close>

lemma verify_installation_of_no_directory:
  assumes "install_tree E = None"
  shows "files_missing (fst (verify_installation_of expected E st)) = []"
    and "map e_severity (errors (error_tracker (snd (verify_installation_of expected E st))))
           = map e_severity (errors (error_tracker st)) @ [''CRITICAL'']"
    and "audit (snd (verify_installation_of expected E st))
           = audit (add_step E ''Comprehensive installation verification'' ''RUNNING'' [] 1 st)"
  using assms
  by (simp_all add: verify_installation_of_def Let_def split_def map_e_severity)

lemma main_success_flag:
  assumes "bat_file E = Some f" and "read_text f = Text content"
    and "choice E = ''y'' \<or> choice E = ''yes''"
  shows "success (audit (snd (main E st)))
           = (fst (run_installer_with_retries E 3 (state_before_install E st))
              \<and> files_missing (fst (verify_installation_comprehensive E
                    (snd (run_installer_with_retries E 3 (state_before_install E st))))) = [])"
    and "errors (error_tracker (snd (main E st)))
           = errors (error_tracker (snd (verify_installation_comprehensive E
                    (snd (run_installer_with_retries E 3 (state_before_install E st))))))"
proof -
  have ok: "fst (verify_installer_comprehensive E s)" for s
    unfolding verify_installer_result using assms(1,2) by simp
  have ch: "choice E \<in> set [''y'', ''yes'']"
    using assms(3) by auto
  show "success (audit (snd (main E st)))
           = (fst (run_installer_with_retries E 3 (state_before_install E st))
              \<and> files_missing (fst (verify_installation_comprehensive E
                    (snd (run_installer_with_retries E 3 (state_before_install E st))))) = [])"
    using ok ch
    by (simp add: main_def state_before_install_def Let_def split_def del: set_simps)
  show "errors (error_tracker (snd (main E st)))
           = errors (error_tracker (snd (verify_installation_comprehensive E
                    (snd (run_installer_with_retries E 3 (state_before_install E st))))))"
    using ok ch
    by (simp add: main_def state_before_install_def Let_def split_def del: set_simps)
qed

text \<open>
  With the empty list of missing files that the verifier returns for a directory that
  does not exist, \<open>main\<close> ends with the success flag set although the last error
  recorded is the CRITICAL one for the directory.
\<close>

lemma success_reported_without_directory:
  "success (audit (snd (main env_no_directory (initial_state env_no_directory))))
   \<and> last (map e_severity (errors (error_tracker
        (snd (main env_no_directory (initial_state env_no_directory)))))) = ''CRITICAL''"
proof -
  let ?E = env_no_directory
  let ?s = "state_before_install ?E (initial_state ?E)"
  have b: "bat_file ?E = Some tiny_text_file" and r: "read_text tiny_text_file = Text []"
    and c: "choice ?E = ''y'' \<or> choice ?E = ''yes''"
    and t: "install_tree ?E = None"
    and l: "launch ?E 1 = Launched (Exits 0 0)"
    by (simp_all add: env_no_directory_def example_env_def tiny_text_file_def)
  have p: "proc_poll (Exits 0 0) max_wait = Some 0" by simp
  have e: "\<forall>a\<in>{1..<1::int}. \<forall>q. launch ?E a = Launched q \<longrightarrow> proc_poll q max_wait \<noteq> Some 0"
    by simp
  have run: "fst (run_installer_with_retries ?E 3 ?s)"
    using retry_loop_success_at [OF _ _ l p e, of 3 ?s]
    by (simp add: run_installer_with_retries_def)
  note v = verify_installation_of_no_directory [OF t, of EXPECTED_FILES
    "snd (run_installer_with_retries ?E 3 ?s)"]
  note m = main_success_flag [OF b r c, of "initial_state ?E"]
  show ?thesis
    unfolding m using run v(1,2)
    by (simp add: verify_installation_comprehensive_def)
qed

end
